theory Spec2Isabelle
  imports Main
begin

section \<open>JavaScript values and effects\<close>

text \<open>
  The logger handles values of type \<^verbatim>\<open>any\<close>. The values that reach the console are
  modelled by a small datatype of JavaScript data; a thrown value is any such value
  (\<open>JError msg\<close> stands for \<^verbatim>\<open>new Error(msg)\<close>). Numbers are only passed around, never
  computed with, so they are integers here.
\<close>

datatype jsval =
    JUndefined
  | JNull
  | JBool bool
  | JNum int
  | JStr string
  | JArr "jsval list"
  | JObj "(string \<times> jsval) list"
  | JError string

text \<open>
  A JavaScript computation over a state \<open>'s\<close> either throws a value (\<open>Inl\<close>) or
  returns one (\<open>Inr\<close>), and leaves a new state either way.
\<close>

type_synonym ('a, 's) js = "'s \<Rightarrow> (jsval + 'a) \<times> 's"

definition returnJ :: "'a \<Rightarrow> ('a, 's) js" where
  "returnJ v s = (Inr v, s)"

definition throwJ :: "jsval \<Rightarrow> ('a, 's) js" where
  "throwJ e s = (Inl e, s)"

definition bindJ :: "('a, 's) js \<Rightarrow> ('a \<Rightarrow> ('b, 's) js) \<Rightarrow> ('b, 's) js" where
  "bindJ m k s = (case m s of (Inl e, s') \<Rightarrow> (Inl e, s') | (Inr v, s') \<Rightarrow> k v s')"

text \<open>\<^verbatim>\<open>try { m } catch (err) { h(err) }\<close>\<close>

definition tryCatch :: "('a, 's) js \<Rightarrow> (jsval \<Rightarrow> ('a, 's) js) \<Rightarrow> ('a, 's) js" where
  "tryCatch m h s = (case m s of (Inl e, s') \<Rightarrow> h e s' | (Inr v, s') \<Rightarrow> (Inr v, s'))"

section \<open>types.ts\<close>

text \<open>\<^verbatim>\<open>type LogLevel = "debug" | "info" | "warn" | "error"\<close>\<close>

datatype LogLevel = L_debug | L_info | L_warn | L_error

fun levelName :: "LogLevel \<Rightarrow> string" where
  "levelName L_debug = ''debug''"
| "levelName L_info = ''info''"
| "levelName L_warn = ''warn''"
| "levelName L_error = ''error''"

text \<open>
  \<^verbatim>\<open>type EnableFn = () => boolean\<close>. The rule is user code: it reads and may change the
  part \<open>'w\<close> of the program state that user code owns, and it may throw.
\<close>

type_synonym 'w EnableFn = "(bool, 'w) js"

text \<open>
  The state the logger runs in: the lines written to the console so far (the console
  method that was called and its arguments, oldest first), the module variable
  \<^verbatim>\<open>_isEnabled\<close>, and the state \<open>world\<close> of the user's code. The rule and the option
  callbacks act on \<open>world\<close> only. The methods of a wrapped object run on the whole
  state: through their receiver they can reach the proxy, whose calls write to the
  console.
\<close>

record 'w runtime =
  console :: "(string \<times> jsval list) list"
  isEnabled :: "'w EnableFn"
  world :: 'w

text \<open>\<^verbatim>\<open>type Logger = { debug, info, warn, error: (...a: any[]) => void }\<close>\<close>

record 'w Logger =
  debug :: "jsval list \<Rightarrow> (unit, 'w runtime) js"
  info :: "jsval list \<Rightarrow> (unit, 'w runtime) js"
  warn :: "jsval list \<Rightarrow> (unit, 'w runtime) js"
  error :: "jsval list \<Rightarrow> (unit, 'w runtime) js"

text \<open>Running user code inside the logger's state.\<close>

definition lift :: "('w \<Rightarrow> 'r \<times> 'w) \<Rightarrow> 'w runtime \<Rightarrow> 'r \<times> 'w runtime" where
  "lift m s = (case m (world s) of (r, w') \<Rightarrow> (r, s\<lparr>world := w'\<rparr>))"

section \<open>logger.ts\<close>

text \<open>
  The default rule reads the globals \<^verbatim>\<open>window\<close> (\<open>None\<close> when
  \<^verbatim>\<open>typeof window === "undefined"\<close>) and \<^verbatim>\<open>process.env.NODE_ENV\<close> (\<open>None\<close> when unset;
  the source declares \<^verbatim>\<open>process\<close> as always present). \<^verbatim>\<open>window.localStorage\<close> may be
  missing (\<open>None\<close>); a storage maps keys to strings.
\<close>

record Window =
  localStorage :: "(string \<rightharpoonup> string) option"

record globals =
  window :: "Window option"
  NODE_ENV :: "string option"

text \<open>\<^verbatim>\<open>Storage.getItem\<close>: the stored string, or \<^verbatim>\<open>null\<close>.\<close>

definition getItem :: "(string \<rightharpoonup> string) \<Rightarrow> string \<Rightarrow> jsval" where
  "getItem store k = (case store k of None \<Rightarrow> JNull | Some v \<Rightarrow> JStr v)"

text \<open>JavaScript truthiness, and the values of \<^verbatim>\<open>a && b\<close> and \<^verbatim>\<open>a || b\<close>.\<close>

fun truthy :: "jsval \<Rightarrow> bool" where
  "truthy JUndefined = False"
| "truthy JNull = False"
| "truthy (JBool b) = b"
| "truthy (JNum n) = (n \<noteq> 0)"
| "truthy (JStr s) = (s \<noteq> [])"
| "truthy (JArr xs) = True"
| "truthy (JObj kvs) = True"
| "truthy (JError m) = True"

definition js_and :: "jsval \<Rightarrow> jsval \<Rightarrow> jsval" where
  "js_and a b = (if truthy a then b else a)"

definition js_or :: "jsval \<Rightarrow> jsval \<Rightarrow> jsval" where
  "js_or a b = (if truthy a then a else b)"

text \<open>
  \<^verbatim>\<open>const defaultEnabled: EnableFn = () => {
    if (typeof window === "undefined") return process.env.NODE_ENV !== "production";
    const ls = window.localStorage?.getItem("debug");
    return (ls && ls !== "false") || process.env.NODE_ENV !== "production"; }\<close>
  The returned value is used as a boolean by its caller.
\<close>

definition defaultEnabled_value :: "'z globals_scheme \<Rightarrow> jsval" where
  "defaultEnabled_value g =
     (case window g of
        None \<Rightarrow> JBool (NODE_ENV g \<noteq> Some ''production'')
      | Some win \<Rightarrow>
          (let ls = (case localStorage win of
                       None \<Rightarrow> JUndefined
                     | Some store \<Rightarrow> getItem store ''debug'')
           in js_or (js_and ls (JBool (ls \<noteq> JStr ''false'')))
                    (JBool (NODE_ENV g \<noteq> Some ''production''))))"

definition defaultEnabled :: "('z globals_scheme) EnableFn" where
  "defaultEnabled g = (Inr (truthy (defaultEnabled_value g)), g)"

text \<open>\<^verbatim>\<open>let _isEnabled: EnableFn = defaultEnabled\<close>: the state when the module is loaded.\<close>

definition initial :: "'z globals_scheme \<Rightarrow> ('z globals_scheme) runtime" where
  "initial g = \<lparr>console = [], isEnabled = defaultEnabled, world = g\<rparr>"

text \<open>\<^verbatim>\<open>export function setEnableRule(fn: EnableFn) { _isEnabled = fn; }\<close>\<close>

definition setEnableRule :: "'w EnableFn \<Rightarrow> (unit, 'w runtime) js" where
  "setEnableRule fn s = (Inr (), s\<lparr>isEnabled := fn\<rparr>)"

text \<open>The call \<^verbatim>\<open>_isEnabled()\<close>: the rule installed now, run on the user's state.\<close>

definition callEnabled :: "(bool, 'w runtime) js" where
  "callEnabled s = lift (isEnabled s) s"

text \<open>\<^verbatim>\<open>console[method](...xs)\<close>: one more line on that channel.\<close>

definition consoleCall :: "string \<Rightarrow> jsval list \<Rightarrow> (unit, 'w runtime) js" where
  "consoleCall method xs s = (Inr (), s\<lparr>console := console s @ [(method, xs)]\<rparr>)"

text \<open>The template literal \<^verbatim>\<open>`[${ns}]`\<close>.\<close>

definition bracketed :: "string \<Rightarrow> string" where
  "bracketed ns = ''['' @ ns @ '']''"

text \<open>
  \<^verbatim>\<open>const emit = (lvl) => (...a) => {
    if (!_isEnabled() && lvl === "debug") return;
    console[lvl === "debug" ? "log" : lvl](`[${ns}]`, ...a); }\<close>
  The left operand of \<^verbatim>\<open>&&\<close> is the call of the rule, so it runs at every level.
\<close>

definition emit :: "string \<Rightarrow> LogLevel \<Rightarrow> jsval list \<Rightarrow> (unit, 'w runtime) js" where
  "emit ns lvl a =
     bindJ callEnabled (\<lambda>en.
       if \<not> en \<and> lvl = L_debug then returnJ ()
       else consoleCall (if lvl = L_debug then ''log'' else levelName lvl)
              (JStr (bracketed ns) # a))"

definition makeLogger :: "string \<Rightarrow> 'w Logger" where
  "makeLogger ns =
     \<lparr>debug = emit ns L_debug, info = emit ns L_info,
      warn = emit ns L_warn, error = emit ns L_error\<rparr>"

text \<open>
  \<^verbatim>\<open>export const makeDevLogger = (ns) => {
    if (typeof __DEV__ !== "undefined" && !__DEV__) {
      const noop = () => {}; return { debug: noop, info: noop, warn: noop, error: noop }; }
    return makeLogger(ns); }\<close>
  The build-time constant \<^verbatim>\<open>__DEV__\<close> is a parameter, \<open>None\<close> when it is undefined.
\<close>

definition noop :: "jsval list \<Rightarrow> (unit, 'w runtime) js" where
  "noop a = returnJ ()"

definition makeDevLogger :: "bool option \<Rightarrow> string \<Rightarrow> 'w Logger" where
  "makeDevLogger DEV ns =
     (case DEV of
        None \<Rightarrow> makeLogger ns
      | Some dev \<Rightarrow>
          if \<not> dev then \<lparr>debug = noop, info = noop, warn = noop, error = noop\<rparr>
          else makeLogger ns)"

section \<open>Deferred results\<close>

text \<open>
  A deferred result (a native promise) is modelled by how it settles: run on the state
  at the time the event loop settles it, it is fulfilled with a value, rejected with a
  reason, or stays pending, and the continuations attached to it have run by then.
  Every thenable is such a promise (the source casts the result to
  \<^verbatim>\<open>Promise<any>\<close>); an object with a hand-written \<^verbatim>\<open>then\<close> is outside the model.
\<close>

datatype settled = Fulfilled jsval | Rejected jsval | Pending

type_synonym 's deferred = "'s \<Rightarrow> settled \<times> 's"

text \<open>
  What a method call evaluates to: a plain value, or a promise. The test
  \<^verbatim>\<open>out && typeof out.then === "function"\<close> holds for \<open>Promise\<close> only.
\<close>

datatype 's jsout = Value jsval | Promise "'s deferred"

text \<open>
  \<^verbatim>\<open>p.then(onFulfilled)\<close>: the derived promise is fulfilled with what the handler
  returns, rejected with what it throws, and follows \<open>p\<close> when \<open>p\<close> is rejected.
\<close>

definition thenP :: "'s deferred \<Rightarrow> (jsval \<Rightarrow> (jsval, 's) js) \<Rightarrow> 's deferred" where
  "thenP p onFulfilled s =
     (case p s of
        (Fulfilled v, s') \<Rightarrow>
          (case onFulfilled v s' of
             (Inl e, s'') \<Rightarrow> (Rejected e, s'')
           | (Inr r, s'') \<Rightarrow> (Fulfilled r, s''))
      | (Rejected e, s') \<Rightarrow> (Rejected e, s')
      | (Pending, s') \<Rightarrow> (Pending, s'))"

text \<open>\<^verbatim>\<open>p.catch(onRejected)\<close>\<close>

definition catchP :: "'s deferred \<Rightarrow> (jsval \<Rightarrow> (jsval, 's) js) \<Rightarrow> 's deferred" where
  "catchP p onRejected s =
     (case p s of
        (Fulfilled v, s') \<Rightarrow> (Fulfilled v, s')
      | (Rejected e, s') \<Rightarrow>
          (case onRejected e s' of
             (Inl e', s'') \<Rightarrow> (Rejected e', s'')
           | (Inr r, s'') \<Rightarrow> (Fulfilled r, s''))
      | (Pending, s') \<Rightarrow> (Pending, s'))"

section \<open>Objects and their methods\<close>

text \<open>
  What reading a property through a receiver gives: a plain value, or a function ready
  to be called, its receiver already fixed.
\<close>

datatype 's property = NonFunction jsval | Function "jsval list \<Rightarrow> ('s jsout, 's) js"

text \<open>What a function sees as \<^verbatim>\<open>this\<close>: its receiver, by the properties read from it.\<close>

type_synonym 's receiver = "string \<Rightarrow> ('s property, 's) js"

text \<open>
  An own property of an object, as \<^verbatim>\<open>Reflect.get\<close> or a \<^verbatim>\<open>get\<close> trap returns it: a plain
  value, or a function that is not bound yet. Such a function takes its receiver
  (\<^verbatim>\<open>this\<close>), then its arguments.
\<close>

datatype 's member =
    Data jsval
  | Method "'s receiver \<Rightarrow> jsval list \<Rightarrow> ('s jsout, 's) js"

type_synonym 'w target = "string \<rightharpoonup> ('w runtime) member"

text \<open>\<^verbatim>\<open>Reflect.get(target, prop, receiver)\<close>: a missing property reads as \<^verbatim>\<open>undefined\<close>.\<close>

definition reflectGet :: "'w target \<Rightarrow> string \<Rightarrow> ('w runtime) member" where
  "reflectGet obj p = (case obj p of None \<Rightarrow> Data JUndefined | Some v \<Rightarrow> v)"

text \<open>Reading a property of the plain object: no trap runs.\<close>

definition targetGet :: "'w target \<Rightarrow> string \<Rightarrow> (('w runtime) member, 'w runtime) js" where
  "targetGet obj p = returnJ (reflectGet obj p)"

text \<open>
  An object, given by what reading its properties does, as the receiver of a call: a
  function read from it is called with the same object as \<^verbatim>\<open>this\<close>. The number is the
  depth of nested calls on \<^verbatim>\<open>this\<close> that is left; when none is left a call throws a
  \<^verbatim>\<open>RangeError\<close>, as the host does when its call stack is exhausted.
\<close>

primrec asReceiver :: "nat \<Rightarrow> (string \<Rightarrow> ('s member, 's) js) \<Rightarrow> 's receiver" where
  "asReceiver 0 getter p =
     bindJ (getter p) (\<lambda>mem.
       returnJ (case mem of
                  Data v \<Rightarrow> NonFunction v
                | Method f \<Rightarrow> Function (\<lambda>args. throwJ (JError ''RangeError''))))"
| "asReceiver (Suc k) getter p =
     bindJ (getter p) (\<lambda>mem.
       returnJ (case mem of
                  Data v \<Rightarrow> NonFunction v
                | Method f \<Rightarrow> Function (f (asReceiver k getter))))"

text \<open>\<^verbatim>\<open>orig.apply(target, args)\<close> calls \<open>orig\<close> with the plain object as its receiver.\<close>

definition targetThis :: "nat \<Rightarrow> 'w target \<Rightarrow> ('w runtime) receiver" where
  "targetThis depth obj = asReceiver depth (targetGet obj)"

text \<open>
  The call expression \<^verbatim>\<open>this.m(...args)\<close> inside a method. Calling what is not a function
  throws a \<^verbatim>\<open>TypeError\<close>.
\<close>

definition callOn :: "'s receiver \<Rightarrow> string \<Rightarrow> jsval list \<Rightarrow> ('s jsout, 's) js" where
  "callOn thisArg m args =
     bindJ (thisArg m) (\<lambda>p.
       case p of
         Function g \<Rightarrow> g args
       | NonFunction v \<Rightarrow> throwJ (JError ''TypeError''))"

text \<open>
  The call expression \<^verbatim>\<open>o.m(...args)\<close> from outside: read the property, then call what
  was read with \<open>o\<close> as its receiver (\<open>k\<close> is the depth left for the calls it makes on
  \<^verbatim>\<open>this\<close>).
\<close>

definition invoke ::
  "nat \<Rightarrow> (string \<Rightarrow> ('s member, 's) js) \<Rightarrow> string \<Rightarrow> jsval list \<Rightarrow> ('s jsout, 's) js" where
  "invoke k getter m args =
     bindJ (getter m) (\<lambda>mem.
       case mem of
         Method f \<Rightarrow> f (asReceiver k getter) args
       | Data v \<Rightarrow> throwJ (JError ''TypeError''))"

section \<open>withDebugProxy.ts\<close>

text \<open>
  \<^verbatim>\<open>type ProxyOpts\<close>: every field is optional, every callback is user code. An array or
  object is passed by reference, so a redaction can edit its argument in place. The
  model makes that an in/out parameter: a redaction yields what it returns, paired with
  its argument as it has left it (the same value when it does not edit it).
\<close>

record 'w ProxyOpts =
  optOut :: "(string \<Rightarrow> (bool, 'w) js) option"
  redactArgs :: "(jsval list \<Rightarrow> string \<Rightarrow> (jsval list \<times> jsval list, 'w) js) option"
  redactResult :: "(jsval \<Rightarrow> string \<Rightarrow> (jsval \<times> jsval, 'w) js) option"
  namespaceFor :: "(string \<Rightarrow> (string option, 'w) js) option"

text \<open>The default \<^verbatim>\<open>opts = {}\<close>.\<close>

definition noOpts :: "'w ProxyOpts" where
  "noOpts = \<lparr>optOut = None, redactArgs = None, redactResult = None, namespaceFor = None\<rparr>"

text \<open>
  The message strings. The source's markers are the characters U+25B6, U+2705 and
  U+274C; they are written here as their UTF-8 bytes.
\<close>

definition args_marker :: string where
  "args_marker = [CHR 0xE2, CHR 0x96, CHR 0xB6] @ '' args:''"

definition result_marker :: string where
  "result_marker = [CHR 0xE2, CHR 0x9C, CHR 0x85] @ '' result:''"

definition error_in :: "string \<Rightarrow> string" where
  "error_in methodName = [CHR 0xE2, CHR 0x9D, CHR 0x8C] @ '' error in '' @ methodName @ '':''"

definition error_marker :: string where
  "error_marker = [CHR 0xE2, CHR 0x9D, CHR 0x8C] @ '' error:''"

text \<open>\<^verbatim>\<open>opts.optOut?.(methodName)\<close>, used as a condition.\<close>

definition optOutCall :: "'w ProxyOpts \<Rightarrow> string \<Rightarrow> (bool, 'w) js" where
  "optOutCall opts methodName =
     (case optOut opts of None \<Rightarrow> returnJ False | Some f \<Rightarrow> f methodName)"

text \<open>\<^verbatim>\<open>opts.namespaceFor?.(methodName)\<close>\<close>

definition namespaceForCall :: "'w ProxyOpts \<Rightarrow> string \<Rightarrow> (string option, 'w) js" where
  "namespaceForCall opts methodName =
     (case namespaceFor opts of None \<Rightarrow> returnJ None | Some f \<Rightarrow> f methodName)"

text \<open>\<^verbatim>\<open>n ?? `${name}.${methodName}`\<close>\<close>

definition resolveNamespace :: "string \<Rightarrow> string \<Rightarrow> string option \<Rightarrow> string" where
  "resolveNamespace name methodName n =
     (case n of Some x \<Rightarrow> x | None \<Rightarrow> name @ ''.'' @ methodName)"

text \<open>
  \<^verbatim>\<open>opts.redactArgs ? opts.redactArgs(args, methodName) : args\<close>: the value of the
  expression, and the array \<^verbatim>\<open>args\<close> as it is afterwards.
\<close>

definition redactArgsCall ::
  "'w ProxyOpts \<Rightarrow> jsval list \<Rightarrow> string \<Rightarrow> (jsval list \<times> jsval list, 'w) js" where
  "redactArgsCall opts args methodName =
     (case redactArgs opts of None \<Rightarrow> returnJ (args, args) | Some f \<Rightarrow> f args methodName)"

text \<open>
  \<^verbatim>\<open>opts.redactResult ? opts.redactResult(res, methodName) : res\<close>: the value of the
  expression, and the object \<^verbatim>\<open>res\<close> as it is afterwards.
\<close>

definition redactResultCall ::
  "'w ProxyOpts \<Rightarrow> jsval \<Rightarrow> string \<Rightarrow> (jsval \<times> jsval, 'w) js" where
  "redactResultCall opts res methodName =
     (case redactResult opts of None \<Rightarrow> returnJ (res, res) | Some f \<Rightarrow> f res methodName)"

text \<open>
  The function that the \<^verbatim>\<open>get\<close> trap returns for a method that is not opted out
  (\<^verbatim>\<open>return function (...args) { ... }\<close>), with the variables it closes over as
  parameters; \<open>origOnTarget\<close> is the call \<^verbatim>\<open>orig.apply(target, args)\<close> as a function of
  \<^verbatim>\<open>args\<close>. The function does not use
  its own \<^verbatim>\<open>this\<close>. The entry line is written before the \<^verbatim>\<open>try\<close>; the call of the
  original and the logging of a plain result are inside it. The original gets the array
  \<^verbatim>\<open>args\<close> as \<^verbatim>\<open>redactArgs\<close> left it, and what is returned is the object \<^verbatim>\<open>out\<close>
  (\<^verbatim>\<open>res\<close>) as \<^verbatim>\<open>redactResult\<close> left it.
\<close>

definition wrappedMethod ::
  "'w Logger \<Rightarrow> 'w Logger \<Rightarrow> 'w ProxyOpts \<Rightarrow> string
     \<Rightarrow> (jsval list \<Rightarrow> ('w runtime jsout, 'w runtime) js)
     \<Rightarrow> jsval list \<Rightarrow> ('w runtime jsout, 'w runtime) js" where
  "wrappedMethod baseLog log opts methodName origOnTarget args =
     bindJ (lift (redactArgsCall opts args methodName)) (\<lambda>(a, args').
     bindJ (debug log [JStr args_marker, JArr a]) (\<lambda>_.
     tryCatch
       (bindJ (origOnTarget args') (\<lambda>out.
          case out of
            Promise p \<Rightarrow>
              returnJ (Promise
                (catchP
                   (thenP p (\<lambda>res.
                      bindJ (lift (redactResultCall opts res methodName)) (\<lambda>(r, res').
                      bindJ (debug log [JStr result_marker, r]) (\<lambda>_.
                      returnJ res'))))
                   (\<lambda>err.
                      bindJ (error baseLog [JStr (error_in methodName), err]) (\<lambda>_.
                      throwJ err))))
          | Value v \<Rightarrow>
              bindJ (lift (redactResultCall opts v methodName)) (\<lambda>(r, v').
              bindJ (debug log [JStr result_marker, r]) (\<lambda>_.
              returnJ (Value v')))))
       (\<lambda>err.
          bindJ (error baseLog [JStr (error_in methodName), err]) (\<lambda>_.
          throwJ err))))"

text \<open>
  \<^verbatim>\<open>withDebugProxy(obj, name, opts)\<close> is a proxy with a \<^verbatim>\<open>get\<close> trap only, so it is
  modelled by what reading a property of it does. For a method that is opted out the
  trap returns \<^verbatim>\<open>orig\<close> as it is, not bound: who calls it as a method of the proxy runs
  it with the proxy as \<^verbatim>\<open>this\<close>. The wrapping function calls \<^verbatim>\<open>orig\<close> on the target
  (\<open>depth\<close> is the depth left for that call's own calls on \<^verbatim>\<open>this\<close>).
\<close>

definition withDebugProxy ::
  "nat \<Rightarrow> 'w target \<Rightarrow> string \<Rightarrow> 'w ProxyOpts
     \<Rightarrow> string \<Rightarrow> (('w runtime) member, 'w runtime) js" where
  "withDebugProxy depth obj name opts propName =
     (let baseLog = makeLogger name in
      case reflectGet obj propName of
        Data v \<Rightarrow> returnJ (Data v)
      | Method orig \<Rightarrow>
          (let methodName = propName in
           bindJ (lift (optOutCall opts methodName)) (\<lambda>skip.
             if skip then returnJ (Method orig)
             else
               bindJ (lift (namespaceForCall opts methodName)) (\<lambda>n.
                 let ns = resolveNamespace name methodName n;
                     log = makeLogger ns
                 in returnJ (Method (\<lambda>thisArg.
                      wrappedMethod baseLog log opts methodName
                        (orig (targetThis depth obj))))))))"

section \<open>decorators.ts\<close>

text \<open>
  \<^verbatim>\<open>DebugLog(ns)(_, key, d)\<close> replaces \<^verbatim>\<open>d.value\<close> (\<open>orig\<close>) by the function modelled
  here, which calls \<^verbatim>\<open>orig.apply(this, args)\<close> with its own receiver. It makes its logger
  at every call and writes every line, the error line too, through that one logger.
\<close>

text \<open>\<^verbatim>\<open>ns ?? key\<close>\<close>

definition decoratorNamespace :: "string option \<Rightarrow> string \<Rightarrow> string" where
  "decoratorNamespace ns key = (case ns of Some n \<Rightarrow> n | None \<Rightarrow> key)"

definition DebugLog ::
  "string option \<Rightarrow> string
     \<Rightarrow> (('w runtime) receiver \<Rightarrow> jsval list \<Rightarrow> ('w runtime jsout, 'w runtime) js)
     \<Rightarrow> ('w runtime) receiver \<Rightarrow> jsval list \<Rightarrow> ('w runtime jsout, 'w runtime) js" where
  "DebugLog ns key orig thisArg args =
     (let log = makeLogger (decoratorNamespace ns key) in
      bindJ (debug log [JStr args_marker, JArr args]) (\<lambda>_.
      tryCatch
        (bindJ (orig thisArg args) (\<lambda>out.
           case out of
             Promise p \<Rightarrow>
               returnJ (Promise
                 (catchP
                    (thenP p (\<lambda>res.
                       bindJ (debug log [JStr result_marker, res]) (\<lambda>_.
                       returnJ res)))
                    (\<lambda>err.
                       bindJ (error log [JStr error_marker, err]) (\<lambda>_.
                       throwJ err))))
           | Value v \<Rightarrow>
               bindJ (debug log [JStr result_marker, v]) (\<lambda>_.
               returnJ (Value v))))
        (\<lambda>e.
           bindJ (error log [JStr error_marker, e]) (\<lambda>_.
           throwJ e))))"

section \<open>Notions used in the statements\<close>

text \<open>The emission operation of a logger at a level.\<close>

fun emission :: "'w Logger \<Rightarrow> LogLevel \<Rightarrow> jsval list \<Rightarrow> (unit, 'w runtime) js" where
  "emission l L_debug = debug l"
| "emission l L_info = info l"
| "emission l L_warn = warn l"
| "emission l L_error = error l"

text \<open>
  A rule instrumented with a call counter: the user's state is paired with the number
  of times the rule has been called.
\<close>

definition counted :: "'w EnableFn \<Rightarrow> (nat \<times> 'w) EnableFn" where
  "counted r = (\<lambda>(k, w). case r w of (res, w') \<Rightarrow> (res, (Suc k, w')))"

text \<open>The value stored under \<^verbatim>\<open>"debug"\<close> in the browser's storage, if any.\<close>

definition persistedDebug :: "'z Window_scheme \<Rightarrow> string option" where
  "persistedDebug win = (case localStorage win of None \<Rightarrow> None | Some store \<Rightarrow> store ''debug'')"

text \<open>
  The lines the instrumentation writes: the entry and result lines of the per-method
  logger, the error line of the wrapper's base logger, and the error line of the
  decorator. A debug line is written when the rule returned true.
\<close>

definition entryLine :: "string \<Rightarrow> jsval list \<Rightarrow> string \<times> jsval list" where
  "entryLine ns a = (''log'', [JStr (bracketed ns), JStr args_marker, JArr a])"

definition resultLine :: "string \<Rightarrow> jsval \<Rightarrow> string \<times> jsval list" where
  "resultLine ns r = (''log'', [JStr (bracketed ns), JStr result_marker, r])"

definition errorLine :: "string \<Rightarrow> string \<Rightarrow> jsval \<Rightarrow> string \<times> jsval list" where
  "errorLine name methodName e = (''error'', [JStr (bracketed name), JStr (error_in methodName), e])"

definition decoratorErrorLine :: "string \<Rightarrow> jsval \<Rightarrow> string \<times> jsval list" where
  "decoratorErrorLine ns e = (''error'', [JStr (bracketed ns), JStr error_marker, e])"

definition written :: "bool \<Rightarrow> 'a \<Rightarrow> 'a list" where
  "written b line = (if b then [line] else [])"

subsection \<open>Concrete inputs\<close>

text \<open>The rules \<^verbatim>\<open>() => true\<close> and \<^verbatim>\<open>() => false\<close>, and a rule that throws.\<close>

definition constRule :: "bool \<Rightarrow> 'w EnableFn" where
  "constRule b = returnJ b"

definition throwingRule :: "'w EnableFn" where
  "throwingRule = throwJ (JError ''rule failed'')"

text \<open>A state with an empty console and nothing in the user's state.\<close>

definition startWith :: "unit EnableFn \<Rightarrow> unit runtime" where
  "startWith r = \<lparr>console = [], isEnabled = r, world = ()\<rparr>"

text \<open>A state whose user state is the call counter of \<open>counted\<close>.\<close>

definition countingFrom :: "nat \<Rightarrow> unit EnableFn \<Rightarrow> (nat \<times> unit) runtime" where
  "countingFrom k r = \<lparr>console = [], isEnabled = counted r, world = (k, ())\<rparr>"

text \<open>A browser in production with \<^verbatim>\<open>localStorage.debug = "1"\<close>, and Node in production.\<close>

definition browserProd :: globals where
  "browserProd =
     \<lparr>window = Some \<lparr>localStorage = Some [''debug'' \<mapsto> ''1'']\<rparr>,
      NODE_ENV = Some ''production''\<rparr>"

definition nodeProd :: globals where
  "nodeProd = \<lparr>window = None, NODE_ENV = Some ''production''\<rparr>"

text \<open>
  A service with a plain method, an asynchronous one, a method that throws, an
  asynchronous one that rejects, and a property that is not a function. None of its
  methods uses \<^verbatim>\<open>this\<close>.
\<close>

definition user :: "jsval list \<Rightarrow> jsval" where
  "user args =
     JObj [(''id'', case args of [] \<Rightarrow> JUndefined | i # _ \<Rightarrow> i), (''name'', JStr ''Alice'')]"

definition getUser :: "'s receiver \<Rightarrow> jsval list \<Rightarrow> ('s jsout, 's) js" where
  "getUser thisArg args = returnJ (Value (user args))"

definition getUserAsync :: "'s receiver \<Rightarrow> jsval list \<Rightarrow> ('s jsout, 's) js" where
  "getUserAsync thisArg args = returnJ (Promise (\<lambda>s. (Fulfilled (user args), s)))"

definition failing :: "'s receiver \<Rightarrow> jsval list \<Rightarrow> ('s jsout, 's) js" where
  "failing thisArg args = throwJ (JError ''Limit exceeded'')"

definition processPayment :: "'s receiver \<Rightarrow> jsval list \<Rightarrow> ('s jsout, 's) js" where
  "processPayment thisArg args =
     returnJ (Promise (\<lambda>s. (Rejected (JError ''Limit exceeded''), s)))"

definition service :: "'w target" where
  "service =
     [''getUser'' \<mapsto> Method getUser, ''getUserAsync'' \<mapsto> Method getUserAsync,
      ''failing'' \<mapsto> Method failing, ''processPayment'' \<mapsto> Method processPayment,
      ''version'' \<mapsto> Data (JNum 1)]"

text \<open>
  An object whose method \<^verbatim>\<open>outer\<close> calls \<^verbatim>\<open>this.inner\<close>:
  \<^verbatim>\<open>{ outer(x) { return this.inner(x); }, inner(x) { return x; } }\<close>, and the same with an
  \<^verbatim>\<open>inner\<close> that throws.
\<close>

definition inner :: "'s receiver \<Rightarrow> jsval list \<Rightarrow> ('s jsout, 's) js" where
  "inner thisArg args = returnJ (Value (case args of [] \<Rightarrow> JUndefined | x # _ \<Rightarrow> x))"

definition outer :: "'s receiver \<Rightarrow> jsval list \<Rightarrow> ('s jsout, 's) js" where
  "outer thisArg args = callOn thisArg ''inner'' args"

definition nested :: "'w target" where
  "nested = [''outer'' \<mapsto> Method outer, ''inner'' \<mapsto> Method inner]"

definition nestedFailing :: "'w target" where
  "nestedFailing = [''outer'' \<mapsto> Method outer, ''inner'' \<mapsto> Method failing]"

text \<open>
  Options: a result redaction that leaves its argument alone, redactions that edit
  their argument in place and return it
  (\<^verbatim>\<open>(r) => { r.name = "***"; return r; }\<close>, \<^verbatim>\<open>(a) => { a[0] = "***"; return a; }\<close>),
  callbacks that throw, and opt-outs.
\<close>

definition maskResult :: "'w ProxyOpts" where
  "maskResult = noOpts\<lparr>redactResult := Some (\<lambda>r m. returnJ (JStr ''<redacted>'', r))\<rparr>"

fun maskName :: "jsval \<Rightarrow> jsval" where
  "maskName (JObj kvs) = JObj (map (\<lambda>(k, v). if k = ''name'' then (k, JStr ''***'') else (k, v)) kvs)"
| "maskName v = v"

definition editingRedactResult :: "'w ProxyOpts" where
  "editingRedactResult =
     noOpts\<lparr>redactResult := Some (\<lambda>r m. returnJ (maskName r, maskName r))\<rparr>"

fun maskFirst :: "jsval list \<Rightarrow> jsval list" where
  "maskFirst [] = [JStr ''***'']"
| "maskFirst (x # xs) = JStr ''***'' # xs"

definition editingRedactArgs :: "'w ProxyOpts" where
  "editingRedactArgs =
     noOpts\<lparr>redactArgs := Some (\<lambda>a m. returnJ (maskFirst a, maskFirst a))\<rparr>"

definition brokenRedactResult :: "'w ProxyOpts" where
  "brokenRedactResult =
     noOpts\<lparr>redactResult := Some (\<lambda>r m. throwJ (JError ''redaction failed''))\<rparr>"

definition brokenRedactArgs :: "'w ProxyOpts" where
  "brokenRedactArgs =
     noOpts\<lparr>redactArgs := Some (\<lambda>a m. throwJ (JError ''redaction failed''))\<rparr>"

definition brokenOptOut :: "'w ProxyOpts" where
  "brokenOptOut = noOpts\<lparr>optOut := Some (\<lambda>m. throwJ (JError ''optOut failed''))\<rparr>"

definition brokenNamespaceFor :: "'w ProxyOpts" where
  "brokenNamespaceFor =
     noOpts\<lparr>namespaceFor := Some (\<lambda>m. throwJ (JError ''namespaceFor failed''))\<rparr>"

definition optOutAll :: "'w ProxyOpts" where
  "optOutAll = noOpts\<lparr>optOut := Some (\<lambda>m. returnJ True)\<rparr>"

definition optOutOuter :: "'w ProxyOpts" where
  "optOutOuter = noOpts\<lparr>optOut := Some (\<lambda>m. returnJ (m = ''outer''))\<rparr>"

text \<open>A namespace override for every method.\<close>

definition renamed :: "'w ProxyOpts" where
  "renamed = noOpts\<lparr>namespaceFor := Some (\<lambda>m. returnJ (Some ''Jobs''))\<rparr>"

text \<open>An opt-out predicate that counts its calls in the user's state.\<close>

definition countingOptOut :: "nat ProxyOpts" where
  "countingOptOut = noOpts\<lparr>optOut := Some (\<lambda>m k. (Inr True, Suc k))\<rparr>"

text \<open>A state whose user state is the call counter of \<open>countingOptOut\<close>.\<close>

definition startCounting :: "nat runtime" where
  "startCounting = \<lparr>console = [], isEnabled = constRule True, world = 0\<rparr>"

section \<open>The logger, step by step\<close>

lemma emit_rule_returns:
  assumes "isEnabled s (world s) = (Inr b, w')"
  shows "emit ns lvl a s =
           (Inr (), if \<not> b \<and> lvl = L_debug then s\<lparr>world := w'\<rparr>
                    else s\<lparr>world := w',
                           console := console s @
                             [(if lvl = L_debug then ''log'' else levelName lvl,
                               JStr (bracketed ns) # a)]\<rparr>)"
  using assms
  by (simp add: emit_def bindJ_def callEnabled_def lift_def returnJ_def consoleCall_def)

lemma emit_rule_throws:
  assumes "isEnabled s (world s) = (Inl e, w')"
  shows "emit ns lvl a s = (Inl e, s\<lparr>world := w'\<rparr>)"
  using assms by (simp add: emit_def bindJ_def callEnabled_def lift_def)

lemma emission_makeLogger: "emission (makeLogger ns) lvl = emit ns lvl"
  by (cases lvl) (simp_all add: makeLogger_def)


lemmas run_defs = bindJ_def tryCatch_def lift_def makeLogger_def emit_def callEnabled_def
  consoleCall_def returnJ_def throwJ_def

lemmas line_defs = written_def entryLine_def resultLine_def errorLine_def decoratorErrorLine_def

lemmas call_defs = optOutCall_def namespaceForCall_def redactArgsCall_def redactResultCall_def
  resolveNamespace_def

lemmas input_defs = service_def getUser_def getUserAsync_def failing_def processPayment_def
  nested_def nestedFailing_def inner_def outer_def
  maskResult_def editingRedactResult_def editingRedactArgs_def
  brokenRedactResult_def brokenRedactArgs_def brokenOptOut_def
  brokenNamespaceFor_def optOutAll_def optOutOuter_def countingOptOut_def
  renamed_def noOpts_def startWith_def startCounting_def constRule_def throwingRule_def

lemmas eval_defs = input_defs call_defs invoke_def callOn_def withDebugProxy_def reflectGet_def
  targetGet_def targetThis_def wrappedMethod_def Let_def run_defs thenP_def catchP_def

section \<open>The wrapper and the decorator, path by path\<close>

text \<open>Reading a method of the proxy: opted out, or wrapped.\<close>

lemma access_optedOut:
  assumes "obj m = Some (Method orig)"
    and "optOutCall opts m (world s) = (Inr True, w1)"
  shows "withDebugProxy d obj name opts m s = (Inr (Method orig), s\<lparr>world := w1\<rparr>)"
  using assms
  by (simp add: withDebugProxy_def reflectGet_def bindJ_def lift_def returnJ_def)

lemma access_wrapped:
  assumes "obj m = Some (Method orig)"
    and "optOutCall opts m (world s) = (Inr False, w1)"
    and "namespaceForCall opts m w1 = (Inr n, w2)"
  shows "withDebugProxy d obj name opts m s =
           (Inr (Method (\<lambda>thisArg.
                   wrappedMethod (makeLogger name) (makeLogger (resolveNamespace name m n))
                     opts m (orig (targetThis d obj)))),
            s\<lparr>world := w2\<rparr>)"
  using assms
  by (simp add: withDebugProxy_def reflectGet_def bindJ_def lift_def returnJ_def)

lemma invoke_run:
  "getter m s = (Inr (Method f), s') \<Longrightarrow> invoke k getter m args s = f (asReceiver k getter) args s'"
  by (simp add: invoke_def bindJ_def)

text \<open>The wrapped function on each path on which the rule and the callbacks return.\<close>

lemma wrapped_plain:
  assumes "redactArgsCall opts args m (world s) = (Inr (a, args'), w1)"
    and "isEnabled s w1 = (Inr b1, w2)"
    and "origOnTarget args' (s\<lparr>world := w2, console := console s @ written b1 (entryLine ns a)\<rparr>)
           = (Inr (Value x), s3)"
    and "redactResultCall opts x m (world s3) = (Inr (r, x'), w4)"
    and "isEnabled s3 w4 = (Inr b2, w5)"
  shows "wrappedMethod (makeLogger name) (makeLogger ns) opts m origOnTarget args s =
           (Inr (Value x'),
            s3\<lparr>world := w5, console := console s3 @ written b2 (resultLine ns r)\<rparr>)"
  using assms
  by (cases b1; cases b2) (simp_all add: wrappedMethod_def run_defs line_defs)

lemma wrapped_throws:
  assumes "redactArgsCall opts args m (world s) = (Inr (a, args'), w1)"
    and "isEnabled s w1 = (Inr b1, w2)"
    and "origOnTarget args' (s\<lparr>world := w2, console := console s @ written b1 (entryLine ns a)\<rparr>)
           = (Inl e, s3)"
    and "isEnabled s3 (world s3) = (Inr b2, w4)"
  shows "wrappedMethod (makeLogger name) (makeLogger ns) opts m origOnTarget args s =
           (Inl e, s3\<lparr>world := w4, console := console s3 @ [errorLine name m e]\<rparr>)"
  using assms
  by (cases b1) (simp_all add: wrappedMethod_def run_defs line_defs)

lemma wrapped_promise:
  assumes "redactArgsCall opts args m (world s) = (Inr (a, args'), w1)"
    and "isEnabled s w1 = (Inr b1, w2)"
    and "origOnTarget args' (s\<lparr>world := w2, console := console s @ written b1 (entryLine ns a)\<rparr>)
           = (Inr (Promise p), s3)"
  shows "\<exists>q. wrappedMethod (makeLogger name) (makeLogger ns) opts m origOnTarget args s =
           (Inr (Promise q), s3)
         \<and> (\<forall>t x t1 r x' w2 b w3.
               p t = (Fulfilled x, t1) \<longrightarrow>
               redactResultCall opts x m (world t1) = (Inr (r, x'), w2) \<longrightarrow>
               isEnabled t1 w2 = (Inr b, w3) \<longrightarrow>
               q t = (Fulfilled x',
                      t1\<lparr>world := w3, console := console t1 @ written b (resultLine ns r)\<rparr>))
         \<and> (\<forall>t e t1 b w2.
               p t = (Rejected e, t1) \<longrightarrow> isEnabled t1 (world t1) = (Inr b, w2) \<longrightarrow>
               q t = (Rejected e, t1\<lparr>world := w2, console := console t1 @ [errorLine name m e]\<rparr>))
         \<and> (\<forall>t e t1 x w2.
               p t = (Rejected e, t1) \<longrightarrow> isEnabled t1 (world t1) = (Inl x, w2) \<longrightarrow>
               q t = (Rejected x, t1\<lparr>world := w2\<rparr>))"
  using assms
  by (cases b1) (simp_all add: wrappedMethod_def run_defs line_defs thenP_def catchP_def)

text \<open>The call \<^verbatim>\<open>proxy.m(...args)\<close> on each of these paths.\<close>

lemma invoke_wrapped_plain:
  assumes "obj m = Some (Method orig)"
    and "optOutCall opts m (world s) = (Inr False, w1)"
    and "namespaceForCall opts m w1 = (Inr n, w2)"
    and "redactArgsCall opts args m w2 = (Inr (a, args'), w3)"
    and "isEnabled s w3 = (Inr b1, w4)"
    and "orig (targetThis d obj) args'
           (s\<lparr>world := w4,
              console := console s @ written b1 (entryLine (resolveNamespace name m n) a)\<rparr>)
           = (Inr (Value x), s5)"
    and "redactResultCall opts x m (world s5) = (Inr (r, x'), w6)"
    and "isEnabled s5 w6 = (Inr b2, w7)"
  shows "invoke k (withDebugProxy d obj name opts) m args s =
            (Inr (Value x'),
             s5\<lparr>world := w7,
                console := console s5 @ written b2 (resultLine (resolveNamespace name m n) r)\<rparr>)"
proof -
  have a1: "redactArgsCall opts args m (world (s\<lparr>world := w2\<rparr>)) = (Inr (a, args'), w3)"
    using assms(4) by simp
  have a2: "isEnabled (s\<lparr>world := w2\<rparr>) w3 = (Inr b1, w4)"
    using assms(5) by simp
  have a3: "orig (targetThis d obj) args'
           ((s\<lparr>world := w2\<rparr>)\<lparr>world := w4,
              console := console (s\<lparr>world := w2\<rparr>)
                           @ written b1 (entryLine (resolveNamespace name m n) a)\<rparr>)
           = (Inr (Value x), s5)"
    using assms(6) by simp
  show ?thesis
    using access_wrapped [where obj = obj, OF assms(1-3), of d name]
          wrapped_plain [where origOnTarget = "orig (targetThis d obj)",
                         OF a1 a2 a3 assms(7) assms(8), of name]
    by (simp add: invoke_run)
qed

lemma invoke_wrapped_throws:
  assumes "obj m = Some (Method orig)"
    and "optOutCall opts m (world s) = (Inr False, w1)"
    and "namespaceForCall opts m w1 = (Inr n, w2)"
    and "redactArgsCall opts args m w2 = (Inr (a, args'), w3)"
    and "isEnabled s w3 = (Inr b1, w4)"
    and "orig (targetThis d obj) args'
           (s\<lparr>world := w4,
              console := console s @ written b1 (entryLine (resolveNamespace name m n) a)\<rparr>)
           = (Inl e, s5)"
    and "isEnabled s5 (world s5) = (Inr b2, w6)"
  shows "invoke k (withDebugProxy d obj name opts) m args s =
            (Inl e, s5\<lparr>world := w6, console := console s5 @ [errorLine name m e]\<rparr>)"
proof -
  have a1: "redactArgsCall opts args m (world (s\<lparr>world := w2\<rparr>)) = (Inr (a, args'), w3)"
    using assms(4) by simp
  have a2: "isEnabled (s\<lparr>world := w2\<rparr>) w3 = (Inr b1, w4)"
    using assms(5) by simp
  have a3: "orig (targetThis d obj) args'
           ((s\<lparr>world := w2\<rparr>)\<lparr>world := w4,
              console := console (s\<lparr>world := w2\<rparr>)
                           @ written b1 (entryLine (resolveNamespace name m n) a)\<rparr>)
           = (Inl e, s5)"
    using assms(6) by simp
  show ?thesis
    using access_wrapped [where obj = obj, OF assms(1-3), of d name]
          wrapped_throws [where origOnTarget = "orig (targetThis d obj)",
                          OF a1 a2 a3 assms(7), of name]
    by (simp add: invoke_run)
qed

lemma invoke_wrapped_promise:
  assumes "obj m = Some (Method orig)"
    and "optOutCall opts m (world s) = (Inr False, w1)"
    and "namespaceForCall opts m w1 = (Inr n, w2)"
    and "redactArgsCall opts args m w2 = (Inr (a, args'), w3)"
    and "isEnabled s w3 = (Inr b1, w4)"
    and "orig (targetThis d obj) args'
           (s\<lparr>world := w4,
              console := console s @ written b1 (entryLine (resolveNamespace name m n) a)\<rparr>)
           = (Inr (Promise p), s5)"
  shows "\<exists>q. invoke k (withDebugProxy d obj name opts) m args s = (Inr (Promise q), s5)
         \<and> (\<forall>t x t1 r x' w6 b w7.
               p t = (Fulfilled x, t1) \<longrightarrow>
               redactResultCall opts x m (world t1) = (Inr (r, x'), w6) \<longrightarrow>
               isEnabled t1 w6 = (Inr b, w7) \<longrightarrow>
               q t = (Fulfilled x',
                      t1\<lparr>world := w7,
                         console := console t1
                           @ written b (resultLine (resolveNamespace name m n) r)\<rparr>))
         \<and> (\<forall>t e t1 b w6.
               p t = (Rejected e, t1) \<longrightarrow> isEnabled t1 (world t1) = (Inr b, w6) \<longrightarrow>
               q t = (Rejected e, t1\<lparr>world := w6, console := console t1 @ [errorLine name m e]\<rparr>))
         \<and> (\<forall>t e t1 x w6.
               p t = (Rejected e, t1) \<longrightarrow> isEnabled t1 (world t1) = (Inl x, w6) \<longrightarrow>
               q t = (Rejected x, t1\<lparr>world := w6\<rparr>))"
proof -
  have a1: "redactArgsCall opts args m (world (s\<lparr>world := w2\<rparr>)) = (Inr (a, args'), w3)"
    using assms(4) by simp
  have a2: "isEnabled (s\<lparr>world := w2\<rparr>) w3 = (Inr b1, w4)"
    using assms(5) by simp
  have a3: "orig (targetThis d obj) args'
           ((s\<lparr>world := w2\<rparr>)\<lparr>world := w4,
              console := console (s\<lparr>world := w2\<rparr>)
                           @ written b1 (entryLine (resolveNamespace name m n) a)\<rparr>)
           = (Inr (Promise p), s5)"
    using assms(6) by simp
  show ?thesis
    using access_wrapped [where obj = obj, OF assms(1-3), of d name]
          wrapped_promise [where origOnTarget = "orig (targetThis d obj)",
                           OF a1 a2 a3, of name]
    by (simp add: invoke_run)
qed

lemma invoke_wrapped_fulfilled:
  assumes "obj m = Some (Method orig)"
    and "optOutCall opts m (world s) = (Inr False, w1)"
    and "namespaceForCall opts m w1 = (Inr n, w2)"
    and "redactArgsCall opts args m w2 = (Inr (a, args'), w3)"
    and "isEnabled s w3 = (Inr b1, w4)"
    and "orig (targetThis d obj) args'
           (s\<lparr>world := w4,
              console := console s @ written b1 (entryLine (resolveNamespace name m n) a)\<rparr>)
           = (Inr (Promise p), s5)"
    and "p t = (Fulfilled x, t1)"
    and "redactResultCall opts x m (world t1) = (Inr (r, x'), w6)"
    and "isEnabled t1 w6 = (Inr b2, w7)"
  shows "\<exists>q. invoke k (withDebugProxy d obj name opts) m args s = (Inr (Promise q), s5)
             \<and> q t = (Fulfilled x',
                       t1\<lparr>world := w7,
                          console := console t1
                            @ written b2 (resultLine (resolveNamespace name m n) r)\<rparr>)"
  using invoke_wrapped_promise [OF assms(1-6), of k] assms(7-9) by blast

lemma invoke_wrapped_rejected:
  assumes "obj m = Some (Method orig)"
    and "optOutCall opts m (world s) = (Inr False, w1)"
    and "namespaceForCall opts m w1 = (Inr n, w2)"
    and "redactArgsCall opts args m w2 = (Inr (a, args'), w3)"
    and "isEnabled s w3 = (Inr b1, w4)"
    and "orig (targetThis d obj) args'
           (s\<lparr>world := w4,
              console := console s @ written b1 (entryLine (resolveNamespace name m n) a)\<rparr>)
           = (Inr (Promise p), s5)"
    and "p t = (Rejected e, t1)"
  shows "\<exists>q. invoke k (withDebugProxy d obj name opts) m args s = (Inr (Promise q), s5)
             \<and> (isEnabled t1 (world t1) = (Inr b2, w6) \<longrightarrow>
                  q t = (Rejected e,
                         t1\<lparr>world := w6, console := console t1 @ [errorLine name m e]\<rparr>))
             \<and> (isEnabled t1 (world t1) = (Inl x, w6) \<longrightarrow>
                  q t = (Rejected x, t1\<lparr>world := w6\<rparr>))"
  using invoke_wrapped_promise [OF assms(1-6), of k] assms(7) by blast

lemma invoke_optedOut:
  assumes "obj m = Some (Method orig)"
    and "optOutCall opts m (world s) = (Inr True, w1)"
  shows "invoke k (withDebugProxy d obj name opts) m args s =
           orig (asReceiver k (withDebugProxy d obj name opts)) args (s\<lparr>world := w1\<rparr>)"
  using access_optedOut [where obj = obj, OF assms, of d name] by (simp add: invoke_run)

text \<open>The decorated method on each path on which the rule returns.\<close>

lemma DebugLog_plain:
  assumes "isEnabled s (world s) = (Inr b1, w1)"
    and "orig thisArg args
           (s\<lparr>world := w1, console := console s @ written b1 (entryLine (decoratorNamespace ns key) args)\<rparr>)
           = (Inr (Value x), s2)"
    and "isEnabled s2 (world s2) = (Inr b2, w3)"
  shows "DebugLog ns key orig thisArg args s =
           (Inr (Value x),
            s2\<lparr>world := w3,
               console := console s2 @ written b2 (resultLine (decoratorNamespace ns key) x)\<rparr>)"
  using assms by (cases b1; cases b2) (simp_all add: DebugLog_def run_defs line_defs)

lemma DebugLog_throws:
  assumes "isEnabled s (world s) = (Inr b1, w1)"
    and "orig thisArg args
           (s\<lparr>world := w1, console := console s @ written b1 (entryLine (decoratorNamespace ns key) args)\<rparr>)
           = (Inl e, s2)"
    and "isEnabled s2 (world s2) = (Inr b2, w3)"
  shows "DebugLog ns key orig thisArg args s =
           (Inl e,
            s2\<lparr>world := w3,
               console := console s2 @ [decoratorErrorLine (decoratorNamespace ns key) e]\<rparr>)"
  using assms by (cases b1) (simp_all add: DebugLog_def run_defs line_defs)

lemma DebugLog_promise:
  assumes "isEnabled s (world s) = (Inr b1, w1)"
    and "orig thisArg args
           (s\<lparr>world := w1, console := console s @ written b1 (entryLine (decoratorNamespace ns key) args)\<rparr>)
           = (Inr (Promise p), s2)"
  shows "\<exists>q. DebugLog ns key orig thisArg args s = (Inr (Promise q), s2)
         \<and> (\<forall>t x t1 b w4.
               p t = (Fulfilled x, t1) \<longrightarrow> isEnabled t1 (world t1) = (Inr b, w4) \<longrightarrow>
               q t = (Fulfilled x,
                      t1\<lparr>world := w4,
                         console := console t1 @ written b (resultLine (decoratorNamespace ns key) x)\<rparr>))
         \<and> (\<forall>t e t1 b w4.
               p t = (Rejected e, t1) \<longrightarrow> isEnabled t1 (world t1) = (Inr b, w4) \<longrightarrow>
               q t = (Rejected e,
                      t1\<lparr>world := w4,
                         console := console t1 @ [decoratorErrorLine (decoratorNamespace ns key) e]\<rparr>))"
  using assms
  by (cases b1) (simp_all add: DebugLog_def run_defs line_defs thenP_def catchP_def)

text \<open>Without options and without a failure, the wrapped function does not use its base logger.\<close>

lemma wrapped_noOpts_plain:
  assumes "isEnabled s (world s) = (Inr b1, w1)"
    and "origOnThis args (s\<lparr>world := w1, console := console s @ written b1 (entryLine ns args)\<rparr>)
           = (Inr (Value x), s2)"
    and "isEnabled s2 (world s2) = (Inr b2, w3)"
  shows "wrappedMethod baseLog (makeLogger ns) noOpts m origOnThis args s =
           (Inr (Value x),
            s2\<lparr>world := w3, console := console s2 @ written b2 (resultLine ns x)\<rparr>)"
  using assms
  by (cases b1; cases b2) (simp_all add: wrappedMethod_def run_defs line_defs call_defs noOpts_def)

lemma wrapped_noOpts_promise:
  assumes "isEnabled s (world s) = (Inr b1, w1)"
    and "origOnThis args (s\<lparr>world := w1, console := console s @ written b1 (entryLine ns args)\<rparr>)
           = (Inr (Promise p), s2)"
  shows "\<exists>q. wrappedMethod baseLog (makeLogger ns) noOpts m origOnThis args s = (Inr (Promise q), s2)
         \<and> (\<forall>t x t1 b w4.
               p t = (Fulfilled x, t1) \<longrightarrow> isEnabled t1 (world t1) = (Inr b, w4) \<longrightarrow>
               q t = (Fulfilled x,
                      t1\<lparr>world := w4, console := console t1 @ written b (resultLine ns x)\<rparr>))"
  using assms
  by (cases b1)
     (simp_all add: wrappedMethod_def run_defs line_defs call_defs noOpts_def thenP_def catchP_def)

section \<open>The logger\<close>

text \<open>
  Claim C4. For every namespace and every argument list, the debug emission of
  \<open>makeLogger n\<close> writes to the console if and only if the rule installed when it is
  called returns true: it then writes one line on the \<^verbatim>\<open>log\<close> channel, and when the rule
  returns false the state is the one the rule itself left (no output, nothing else
  changed by the logger). A rule that throws has not returned true, and nothing is
  written. The rule is the one installed at the call, also for a logger made before
  \<open>setEnableRule\<close>.
\<close>

theorem debug_output_iff_rule_true:
  "((console (snd (debug (makeLogger n) vs s)) \<noteq> console s)
      = (fst (isEnabled s (world s)) = Inr True))
   \<and> (isEnabled s (world s) = (Inr True, w') \<longrightarrow>
        debug (makeLogger n) vs s =
          (Inr (), s\<lparr>world := w', console := console s @ [(''log'', JStr (bracketed n) # vs)]\<rparr>))
   \<and> (isEnabled s (world s) = (Inr False, w') \<longrightarrow>
        debug (makeLogger n) vs s = (Inr (), s\<lparr>world := w'\<rparr>))
   \<and> ((console (snd (debug (makeLogger n) vs (snd (setEnableRule r s)))) \<noteq> console s)
        = (fst (r (world s)) = Inr True))"
proof -
  have dbg: "debug (makeLogger n) vs t = emit n L_debug vs t" for t :: "'a runtime"
    by (simp add: makeLogger_def)
  have iff: "(console (snd (emit n L_debug vs t)) \<noteq> console t)
               = (fst (isEnabled t (world t)) = Inr True)"
    for t :: "'a runtime"
  proof (cases "isEnabled t (world t)")
    case (Pair res w)
    show ?thesis
    proof (cases res)
      case (Inl e)
      with Pair show ?thesis by (simp add: emit_rule_throws)
    next
      case (Inr b)
      with Pair show ?thesis by (simp add: emit_rule_returns)
    qed
  qed
  have "(console (snd (emit n L_debug vs (snd (setEnableRule r s))))
           \<noteq> console (snd (setEnableRule r s)))
        = (fst (isEnabled (snd (setEnableRule r s)) (world (snd (setEnableRule r s)))) = Inr True)"
    by (rule iff)
  then have later:
    "(console (snd (emit n L_debug vs (snd (setEnableRule r s)))) \<noteq> console s)
       = (fst (r (world s)) = Inr True)"
    by (simp add: setEnableRule_def)
  have on: "isEnabled s (world s) = (Inr True, w') \<Longrightarrow>
        emit n L_debug vs s =
          (Inr (), s\<lparr>world := w', console := console s @ [(''log'', JStr (bracketed n) # vs)]\<rparr>)"
    using emit_rule_returns [of s True w' n L_debug vs] by simp
  have off: "isEnabled s (world s) = (Inr False, w') \<Longrightarrow>
        emit n L_debug vs s = (Inr (), s\<lparr>world := w'\<rparr>)"
    using emit_rule_returns [of s False w' n L_debug vs] by simp
  show ?thesis
    using on off by (simp add: dbg iff later)
qed

text \<open>
  The scenarios of the specification: with the rule constantly true,
  \<^verbatim>\<open>makeLogger("X").debug("a", 1)\<close> writes the one line \<^verbatim>\<open>[X] a 1\<close> on the general
  channel; with the rule constantly false it changes nothing.
\<close>

theorem debug_output_iff_rule_true_witness:
  "debug (makeLogger ''X'') [JStr ''a'', JNum 1] (startWith (constRule True))
     = (Inr (), (startWith (constRule True))
                  \<lparr>console := [(''log'', [JStr ''[X]'', JStr ''a'', JNum 1])]\<rparr>)
   \<and> debug (makeLogger ''X'') [JStr ''a'', JNum 1] (startWith (constRule False))
     = (Inr (), startWith (constRule False))"
  using debug_output_iff_rule_true
          [of "''X''" "[JStr ''a'', JNum 1]" "startWith (constRule True)" "()"]
        debug_output_iff_rule_true
          [of "''X''" "[JStr ''a'', JNum 1]" "startWith (constRule False)" "()"]
  by (simp add: startWith_def constRule_def returnJ_def bracketed_def)

text \<open>
  Claim C5. For every namespace \<open>n\<close> and all values \<open>vs\<close>, whatever the installed rule
  returns (\<open>b\<close>), the info, warn and error emissions of \<open>makeLogger n\<close> each write exactly
  one line, on the channel of their own name: the tag \<^verbatim>\<open>[n]\<close> followed by \<open>vs\<close> in order.
  The debug emission writes its line, when the rule returns true, on the \<^verbatim>\<open>log\<close> channel.
\<close>

theorem info_warn_error_one_line:
  assumes "isEnabled s (world s) = (Inr b, w')"
  shows "info (makeLogger n) vs s =
           (Inr (), s\<lparr>world := w', console := console s @ [(''info'', JStr (bracketed n) # vs)]\<rparr>)
       \<and> warn (makeLogger n) vs s =
           (Inr (), s\<lparr>world := w', console := console s @ [(''warn'', JStr (bracketed n) # vs)]\<rparr>)
       \<and> error (makeLogger n) vs s =
           (Inr (), s\<lparr>world := w', console := console s @ [(''error'', JStr (bracketed n) # vs)]\<rparr>)
       \<and> debug (makeLogger n) vs s =
           (Inr (), if b then s\<lparr>world := w', console := console s @ [(''log'', JStr (bracketed n) # vs)]\<rparr>
                    else s\<lparr>world := w'\<rparr>)"
  using emit_rule_returns [OF assms, of n L_info vs] emit_rule_returns [OF assms, of n L_warn vs]
        emit_rule_returns [OF assms, of n L_error vs] emit_rule_returns [OF assms, of n L_debug vs]
  by (simp add: makeLogger_def)

text \<open>
  The scenario of the specification: with the rule constantly false, \<^verbatim>\<open>.error("b")\<close>
  still writes the one line \<^verbatim>\<open>[X] b\<close> on the error channel.
\<close>

theorem info_warn_error_one_line_witness:
  "error (makeLogger ''X'') [JStr ''b''] (startWith (constRule False))
     = (Inr (), (startWith (constRule False))\<lparr>console := [(''error'', [JStr ''[X]'', JStr ''b''])]\<rparr>)
   \<and> info (makeLogger ''X'') [JStr ''b''] (startWith (constRule True))
     = (Inr (), (startWith (constRule True))\<lparr>console := [(''info'', [JStr ''[X]'', JStr ''b''])]\<rparr>)"
  using info_warn_error_one_line [of "startWith (constRule False)" False "()" "''X''" "[JStr ''b'']"]
        info_warn_error_one_line [of "startWith (constRule True)" True "()" "''X''" "[JStr ''b'']"]
  by (simp add: startWith_def constRule_def returnJ_def bracketed_def)

text \<open>
  Claim C10. At every level, an emission of \<open>makeLogger n\<close> starts by calling the
  installed rule once, on the state at the call: what the rule does to the user's state
  is there once afterwards, a rule that throws makes the emission throw with nothing
  written (at the info, warn and error levels too), and the value it returns matters
  at the debug level only. With a rule that counts its calls, every emission adds
  exactly one to the count.
\<close>

theorem rule_called_once_at_every_level:
  "emission (makeLogger n) lvl vs s =
     (case isEnabled s (world s) of
        (Inl e, w') \<Rightarrow> (Inl e, s\<lparr>world := w'\<rparr>)
      | (Inr b, w') \<Rightarrow>
          (Inr (), if \<not> b \<and> lvl = L_debug then s\<lparr>world := w'\<rparr>
                   else s\<lparr>world := w',
                          console := console s @
                            [(if lvl = L_debug then ''log'' else levelName lvl, JStr (bracketed n) # vs)]\<rparr>))
   \<and> (isEnabled c = counted r \<longrightarrow>
        fst (world (snd (emission (makeLogger n) lvl vs c))) = Suc (fst (world c)))"
proof -
  obtain res w' where run: "isEnabled s (world s) = (res, w')"
    by (cases "isEnabled s (world s)")
  have first: "emission (makeLogger n) lvl vs s =
     (case isEnabled s (world s) of
        (Inl e, w') \<Rightarrow> (Inl e, s\<lparr>world := w'\<rparr>)
      | (Inr b, w') \<Rightarrow>
          (Inr (), if \<not> b \<and> lvl = L_debug then s\<lparr>world := w'\<rparr>
                   else s\<lparr>world := w',
                          console := console s @
                            [(if lvl = L_debug then ''log'' else levelName lvl, JStr (bracketed n) # vs)]\<rparr>))"
  proof (cases res)
    case (Inl e)
    with run show ?thesis by (simp add: emission_makeLogger emit_rule_throws)
  next
    case (Inr b)
    with run show ?thesis by (simp add: emission_makeLogger emit_rule_returns)
  qed
  have second: "fst (world (snd (emission (makeLogger n) lvl vs c))) = Suc (fst (world c))"
    if "isEnabled c = counted r"
  proof -
    obtain k u where w: "world c = (k, u)" by (cases "world c")
    obtain res' u' where r: "r u = (res', u')" by (cases "r u")
    from that w r have run': "isEnabled c (world c) = (res', (Suc k, u'))"
      by (simp add: counted_def)
    show ?thesis
    proof (cases res')
      case (Inl e)
      with run' w show ?thesis by (simp add: emission_makeLogger emit_rule_throws)
    next
      case (Inr b)
      with run' w show ?thesis by (simp add: emission_makeLogger emit_rule_returns)
    qed
  qed
  from first second show ?thesis by blast
qed

text \<open>
  An error emission under a rule that throws writes nothing and throws; an error and a
  debug emission under a counted rule each call it once.
\<close>

theorem rule_called_once_at_every_level_witness:
  "error (makeLogger ''X'') [JStr ''b''] (startWith throwingRule)
     = (Inl (JError ''rule failed''), startWith throwingRule)
   \<and> fst (world (snd (error (makeLogger ''X'') [JStr ''b''] (countingFrom 0 (constRule False))))) = 1
   \<and> fst (world (snd (debug (makeLogger ''X'') [JStr ''b''] (countingFrom 0 (constRule False))))) = 1"
  using rule_called_once_at_every_level
          [of "''X''" L_error "[JStr ''b'']" "startWith throwingRule"
              "countingFrom 0 (constRule False)" "constRule False"]
        rule_called_once_at_every_level
          [of "''X''" L_debug "[JStr ''b'']" "startWith throwingRule"
              "countingFrom 0 (constRule False)" "constRule False"]
  by (simp add: startWith_def throwingRule_def throwJ_def countingFrom_def)

text \<open>
  Claim C9. When \<^verbatim>\<open>__DEV__\<close> is defined and false, the four operations of
  \<open>makeDevLogger n\<close> do nothing: no output, no call of the rule, the state is unchanged.
  When it is undefined or true, \<open>makeDevLogger n\<close> is \<open>makeLogger n\<close>.
\<close>

theorem makeDevLogger_cases:
  "debug (makeDevLogger (Some False) n) vs s = (Inr (), s)
   \<and> info (makeDevLogger (Some False) n) vs s = (Inr (), s)
   \<and> warn (makeDevLogger (Some False) n) vs s = (Inr (), s)
   \<and> error (makeDevLogger (Some False) n) vs s = (Inr (), s)
   \<and> (makeDevLogger None n :: 'w Logger) = makeLogger n
   \<and> (makeDevLogger (Some True) n :: 'w Logger) = makeLogger n"
  for s :: "'w runtime"
  by (simp add: makeDevLogger_def noop_def returnJ_def)

theorem makeDevLogger_cases_witness:
  "error (makeDevLogger (Some False) ''X'') [JStr ''b''] (startWith (constRule True))
     = (Inr (), startWith (constRule True))
   \<and> error (makeDevLogger None ''X'') [JStr ''b''] (startWith (constRule True))
     = (Inr (), (startWith (constRule True))\<lparr>console := [(''error'', [JStr ''[X]'', JStr ''b''])]\<rparr>)"
  using makeDevLogger_cases [of "''X''" "[JStr ''b'']" "startWith (constRule True)"]
        emit_rule_returns [of "startWith (constRule True)" True "()" "''X''" L_error "[JStr ''b'']"]
  by (simp add: startWith_def constRule_def returnJ_def bracketed_def makeLogger_def)

text \<open>
  Claim C6. Outside a browser the default rule returns true exactly when \<^verbatim>\<open>NODE_ENV\<close> is
  not \<^verbatim>\<open>"production"\<close> (unset counts as not production). In a browser it returns true
  exactly when the value stored under \<^verbatim>\<open>"debug"\<close> is present, non-empty and not
  \<^verbatim>\<open>"false"\<close>, or the \<^verbatim>\<open>NODE_ENV\<close> check holds. It changes nothing, the value its
  JavaScript expression yields is that boolean, and it is the rule installed when the
  module is loaded.
\<close>

theorem defaultEnabled_rule:
  "(window g = None \<longrightarrow> defaultEnabled g = (Inr (NODE_ENV g \<noteq> Some ''production''), g))
   \<and> (window g = Some win \<longrightarrow>
        defaultEnabled g =
          (Inr ((\<exists>v. persistedDebug win = Some v \<and> v \<noteq> '''' \<and> v \<noteq> ''false'')
                \<or> NODE_ENV g \<noteq> Some ''production''), g))
   \<and> defaultEnabled_value g = JBool (fst (defaultEnabled g) = Inr True)
   \<and> isEnabled (initial g) = defaultEnabled"
  by (auto simp add: defaultEnabled_def defaultEnabled_value_def persistedDebug_def getItem_def
        js_or_def js_and_def initial_def Let_def split: option.splits)

text \<open>
  Node in production: false. A browser in production with \<^verbatim>\<open>localStorage.debug = "1"\<close>:
  true. Node with \<^verbatim>\<open>NODE_ENV\<close> unset: true.
\<close>

theorem defaultEnabled_rule_witness:
  "defaultEnabled nodeProd = (Inr False, nodeProd)
   \<and> defaultEnabled browserProd = (Inr True, browserProd)
   \<and> defaultEnabled (nodeProd\<lparr>NODE_ENV := None\<rparr>) = (Inr True, nodeProd\<lparr>NODE_ENV := None\<rparr>)"
  using defaultEnabled_rule [of nodeProd]
        defaultEnabled_rule [of browserProd "\<lparr>localStorage = Some [''debug'' \<mapsto> ''1'']\<rparr>"]
        defaultEnabled_rule [of "nodeProd\<lparr>NODE_ENV := None\<rparr>"]
  by (simp add: nodeProd_def browserProd_def persistedDebug_def)

section \<open>The wrapper\<close>

text \<open>
  Claim C1, as amended. Let \<open>m\<close> be a method of the object. If the callbacks the call
  runs (\<open>optOut\<close> and \<open>namespaceFor\<close> at the access, \<open>redactArgs\<close>, \<open>redactResult\<close>) and
  the installed rule return normally, then the original is called on the target with
  the arguments as \<open>redactArgs\<close> left them (\<open>args'\<close>: the arguments passed, when it does
  not edit the array in place), and: when the original returns a plain value \<open>x\<close>, the
  call through the proxy returns \<open>x\<close> as \<open>redactResult\<close> left it (\<open>x'\<close>: \<open>x\<close> itself, when
  it does not edit the object in place), and what \<open>redactResult\<close> returned, \<open>r\<close>, appears
  in the result line only; when the original returns a promise that is fulfilled with
  \<open>x\<close>, the promise the proxy returns is fulfilled with \<open>x'\<close>, again with \<open>r\<close> in the line
  only. For a method that is opted out, the call through the proxy is the call of the
  original on the same arguments with the proxy as \<^verbatim>\<open>this\<close>, after the predicate has run.
\<close>

theorem wrapper_returns_original_value:
  assumes "obj m = Some (Method orig)"
  shows
    "(optOutCall opts m (world s) = (Inr False, w1) \<and> namespaceForCall opts m w1 = (Inr n, w2) \<and>
      redactArgsCall opts args m w2 = (Inr (a, args'), w3) \<and> isEnabled s w3 = (Inr b1, w4) \<and>
      orig (targetThis d obj) args'
        (s\<lparr>world := w4,
           console := console s @ written b1 (entryLine (resolveNamespace name m n) a)\<rparr>)
        = (Inr (Value x), s5) \<and>
      redactResultCall opts x m (world s5) = (Inr (r, x'), w6) \<and> isEnabled s5 w6 = (Inr b2, w7)
      \<longrightarrow> invoke k (withDebugProxy d obj name opts) m args s =
            (Inr (Value x'),
             s5\<lparr>world := w7,
                console := console s5 @ written b2 (resultLine (resolveNamespace name m n) r)\<rparr>))
   \<and> (optOutCall opts m (world s) = (Inr False, w1) \<and> namespaceForCall opts m w1 = (Inr n, w2) \<and>
      redactArgsCall opts args m w2 = (Inr (a, args'), w3) \<and> isEnabled s w3 = (Inr b1, w4) \<and>
      orig (targetThis d obj) args'
        (s\<lparr>world := w4,
           console := console s @ written b1 (entryLine (resolveNamespace name m n) a)\<rparr>)
        = (Inr (Promise p), s5) \<and>
      p t = (Fulfilled x, t1) \<and>
      redactResultCall opts x m (world t1) = (Inr (r, x'), w8) \<and> isEnabled t1 w8 = (Inr b2, w9)
      \<longrightarrow> (\<exists>q. invoke k (withDebugProxy d obj name opts) m args s = (Inr (Promise q), s5)
              \<and> q t = (Fulfilled x',
                        t1\<lparr>world := w9,
                           console := console t1
                             @ written b2 (resultLine (resolveNamespace name m n) r)\<rparr>)))
   \<and> (optOutCall opts m (world s) = (Inr True, w1)
      \<longrightarrow> invoke k (withDebugProxy d obj name opts) m args s =
            orig (asReceiver k (withDebugProxy d obj name opts)) args (s\<lparr>world := w1\<rparr>))"
proof (intro conjI impI)
  assume "optOutCall opts m (world s) = (Inr False, w1) \<and> namespaceForCall opts m w1 = (Inr n, w2) \<and>
      redactArgsCall opts args m w2 = (Inr (a, args'), w3) \<and> isEnabled s w3 = (Inr b1, w4) \<and>
      orig (targetThis d obj) args'
        (s\<lparr>world := w4,
           console := console s @ written b1 (entryLine (resolveNamespace name m n) a)\<rparr>)
        = (Inr (Value x), s5) \<and>
      redactResultCall opts x m (world s5) = (Inr (r, x'), w6) \<and> isEnabled s5 w6 = (Inr b2, w7)"
  then show "invoke k (withDebugProxy d obj name opts) m args s =
            (Inr (Value x'),
             s5\<lparr>world := w7,
                console := console s5 @ written b2 (resultLine (resolveNamespace name m n) r)\<rparr>)"
    by (elim conjE) (rule invoke_wrapped_plain [where obj = obj and orig = orig, OF assms]; assumption)
next
  assume "optOutCall opts m (world s) = (Inr False, w1) \<and> namespaceForCall opts m w1 = (Inr n, w2) \<and>
      redactArgsCall opts args m w2 = (Inr (a, args'), w3) \<and> isEnabled s w3 = (Inr b1, w4) \<and>
      orig (targetThis d obj) args'
        (s\<lparr>world := w4,
           console := console s @ written b1 (entryLine (resolveNamespace name m n) a)\<rparr>)
        = (Inr (Promise p), s5) \<and>
      p t = (Fulfilled x, t1) \<and>
      redactResultCall opts x m (world t1) = (Inr (r, x'), w8) \<and> isEnabled t1 w8 = (Inr b2, w9)"
  then show "\<exists>q. invoke k (withDebugProxy d obj name opts) m args s = (Inr (Promise q), s5)
              \<and> q t = (Fulfilled x',
                        t1\<lparr>world := w9,
                           console := console t1
                             @ written b2 (resultLine (resolveNamespace name m n) r)\<rparr>)"
    by (elim conjE)
       (rule invoke_wrapped_fulfilled [where obj = obj and orig = orig, OF assms]; assumption)
next
  assume "optOutCall opts m (world s) = (Inr True, w1)"
  then show "invoke k (withDebugProxy d obj name opts) m args s =
            orig (asReceiver k (withDebugProxy d obj name opts)) args (s\<lparr>world := w1\<rparr>)"
    by (rule invoke_optedOut [where obj = obj and orig = orig, OF assms])
qed

text \<open>
  The scenario of the specification with a result redaction that leaves its argument
  alone: \<^verbatim>\<open>getUser("123")\<close> returns the user, the result line shows the redacted value;
  the asynchronous variant is fulfilled with the user; with every method opted out the
  user is returned and nothing is written. With a redaction that masks the name in
  place, the caller receives the user with the name masked.
\<close>

theorem wrapper_returns_original_value_witness:
  "invoke 1 (withDebugProxy 1 service ''UserService'' maskResult) ''getUser'' [JStr ''123'']
       (startWith (constRule True))
     = (Inr (Value (user [JStr ''123''])),
        (startWith (constRule True))
          \<lparr>console := [entryLine ''UserService.getUser'' [JStr ''123''],
                       resultLine ''UserService.getUser'' (JStr ''<redacted>'')]\<rparr>)
   \<and> (\<exists>q. invoke 1 (withDebugProxy 1 service ''UserService'' maskResult) ''getUserAsync''
             [JStr ''123''] (startWith (constRule True))
           = (Inr (Promise q),
              (startWith (constRule True))
                \<lparr>console := [entryLine ''UserService.getUserAsync'' [JStr ''123'']]\<rparr>)
         \<and> q (startWith (constRule False))
           = (Fulfilled (user [JStr ''123'']), startWith (constRule False)))
   \<and> invoke 1 (withDebugProxy 1 service ''UserService'' optOutAll) ''getUser'' [JStr ''123'']
       (startWith (constRule True))
     = (Inr (Value (user [JStr ''123''])), startWith (constRule True))
   \<and> invoke 1 (withDebugProxy 1 service ''UserService'' editingRedactResult) ''getUser''
       [JStr ''123''] (startWith (constRule True))
     = (Inr (Value (JObj [(''id'', JStr ''123''), (''name'', JStr ''***'')])),
        (startWith (constRule True))
          \<lparr>console := [entryLine ''UserService.getUser'' [JStr ''123''],
                       resultLine ''UserService.getUser''
                         (JObj [(''id'', JStr ''123''), (''name'', JStr ''***'')])]\<rparr>)"
  using wrapper_returns_original_value
          [where obj = service and m = "''getUser''" and orig = getUser and opts = maskResult
             and s = "startWith (constRule True)" and name = "''UserService''"
             and d = 1 and k = 1
             and args = "[JStr ''123'']" and a = "[JStr ''123'']" and args' = "[JStr ''123'']"
             and n = None
             and x = "user [JStr ''123'']" and x' = "user [JStr ''123'']"
             and r = "JStr ''<redacted>''"
             and ?s5.0 = "(startWith (constRule True))
                            \<lparr>console := [entryLine ''UserService.getUser'' [JStr ''123'']]\<rparr>"
             and ?b1.0 = True and ?b2.0 = True
             and ?w1.0 = "()" and ?w2.0 = "()" and ?w3.0 = "()" and ?w4.0 = "()"
             and ?w6.0 = "()" and ?w7.0 = "()"]
        wrapper_returns_original_value
          [where obj = service and m = "''getUserAsync''" and orig = getUserAsync
             and opts = maskResult
             and s = "startWith (constRule True)" and name = "''UserService''"
             and d = 1 and k = 1
             and args = "[JStr ''123'']" and a = "[JStr ''123'']" and args' = "[JStr ''123'']"
             and n = None
             and p = "\<lambda>s. (Fulfilled (user [JStr ''123'']), s)"
             and ?s5.0 = "(startWith (constRule True))
                            \<lparr>console := [entryLine ''UserService.getUserAsync'' [JStr ''123'']]\<rparr>"
             and t = "startWith (constRule False)" and ?t1.0 = "startWith (constRule False)"
             and x = "user [JStr ''123'']" and x' = "user [JStr ''123'']"
             and r = "JStr ''<redacted>''"
             and ?b1.0 = True and ?b2.0 = False
             and ?w1.0 = "()" and ?w2.0 = "()" and ?w3.0 = "()" and ?w4.0 = "()"
             and ?w8.0 = "()" and ?w9.0 = "()"]
        wrapper_returns_original_value
          [where obj = service and m = "''getUser''" and orig = getUser and opts = optOutAll
             and s = "startWith (constRule True)" and name = "''UserService''"
             and d = 1 and k = 1
             and args = "[JStr ''123'']" and ?w1.0 = "()"]
        wrapper_returns_original_value
          [where obj = service and m = "''getUser''" and orig = getUser
             and opts = editingRedactResult
             and s = "startWith (constRule True)" and name = "''UserService''"
             and d = 1 and k = 1
             and args = "[JStr ''123'']" and a = "[JStr ''123'']" and args' = "[JStr ''123'']"
             and n = None
             and x = "user [JStr ''123'']"
             and x' = "JObj [(''id'', JStr ''123''), (''name'', JStr ''***'')]"
             and r = "JObj [(''id'', JStr ''123''), (''name'', JStr ''***'')]"
             and ?s5.0 = "(startWith (constRule True))
                            \<lparr>console := [entryLine ''UserService.getUser'' [JStr ''123'']]\<rparr>"
             and ?b1.0 = True and ?b2.0 = True
             and ?w1.0 = "()" and ?w2.0 = "()" and ?w3.0 = "()" and ?w4.0 = "()"
             and ?w6.0 = "()" and ?w7.0 = "()"]
  by (simp add: input_defs call_defs returnJ_def line_defs user_def)

text \<open>
  Claim C1 as stated fails when a redaction or the rule throws, and when a redaction
  edits its argument in place. \<^verbatim>\<open>getUser("123")\<close> returns the user, but through a proxy
  whose \<open>redactResult\<close> throws the call throws the redaction's error, and the
  asynchronous variant is rejected with it; through a proxy whose \<open>redactResult\<close> masks
  the name in place the caller receives the masked user; through a proxy whose
  \<open>redactArgs\<close> masks the first argument in place the original is called with the mask
  and returns another user; with a \<open>redactArgs\<close>, \<open>optOut\<close> or \<open>namespaceFor\<close> that throws,
  or a rule that throws, the call throws before the original is called at all.
\<close>

theorem wrapper_returns_original_value_counterexample:
  "fst (getUser (targetThis 1 service) [JStr ''123''] (startWith (constRule True)))
       = Inr (Value (user [JStr ''123'']))
   \<and> fst (invoke 1 (withDebugProxy 1 service ''UserService'' brokenRedactResult) ''getUser''
             [JStr ''123''] (startWith (constRule True)))
       = Inl (JError ''redaction failed'')
   \<and> (case invoke 1 (withDebugProxy 1 service ''UserService'' brokenRedactResult) ''getUserAsync''
              [JStr ''123''] (startWith (constRule True)) of
         (Inr (Promise q), s') \<Rightarrow> fst (q s') = Rejected (JError ''redaction failed'')
       | _ \<Rightarrow> False)
   \<and> fst (invoke 1 (withDebugProxy 1 service ''UserService'' editingRedactResult) ''getUser''
             [JStr ''123''] (startWith (constRule True)))
       = Inr (Value (JObj [(''id'', JStr ''123''), (''name'', JStr ''***'')]))
   \<and> user [JStr ''123''] \<noteq> JObj [(''id'', JStr ''123''), (''name'', JStr ''***'')]
   \<and> fst (invoke 1 (withDebugProxy 1 service ''UserService'' editingRedactArgs) ''getUser''
             [JStr ''123''] (startWith (constRule True)))
       = Inr (Value (user [JStr ''***'']))
   \<and> user [JStr ''123''] \<noteq> user [JStr ''***'']
   \<and> invoke 1 (withDebugProxy 1 service ''UserService'' brokenRedactArgs) ''getUser''
             [JStr ''123''] (startWith (constRule True))
       = (Inl (JError ''redaction failed''), startWith (constRule True))
   \<and> invoke 1 (withDebugProxy 1 service ''UserService'' brokenOptOut) ''getUser''
             [JStr ''123''] (startWith (constRule True))
       = (Inl (JError ''optOut failed''), startWith (constRule True))
   \<and> invoke 1 (withDebugProxy 1 service ''UserService'' brokenNamespaceFor) ''getUser''
             [JStr ''123''] (startWith (constRule True))
       = (Inl (JError ''namespaceFor failed''), startWith (constRule True))
   \<and> invoke 1 (withDebugProxy 1 service ''UserService'' noOpts) ''getUser''
             [JStr ''123''] (startWith throwingRule)
       = (Inl (JError ''rule failed''), startWith throwingRule)"
  by (simp add: eval_defs user_def)

text \<open>
  Claim C2, as amended. Let \<open>m\<close> be a method of the object that is not opted out. If
  \<open>namespaceFor\<close>, \<open>redactArgs\<close> and the installed rule return normally and the
  original, called on the target, throws \<open>e\<close>, the call through the proxy throws the same
  \<open>e\<close>, and the last line it has written is the one error line of the base logger:
  \<^verbatim>\<open>[name]\<close>, the message naming the method, and \<open>e\<close>.
\<close>

theorem wrapper_rethrows_sync_error:
  assumes "obj m = Some (Method orig)"
  shows
    "optOutCall opts m (world s) = (Inr False, w1) \<and> namespaceForCall opts m w1 = (Inr n, w2) \<and>
     redactArgsCall opts args m w2 = (Inr (a, args'), w3) \<and> isEnabled s w3 = (Inr b1, w4) \<and>
     orig (targetThis d obj) args'
       (s\<lparr>world := w4,
          console := console s @ written b1 (entryLine (resolveNamespace name m n) a)\<rparr>)
       = (Inl e, s5) \<and>
     isEnabled s5 (world s5) = (Inr b2, w6)
     \<longrightarrow> invoke k (withDebugProxy d obj name opts) m args s =
           (Inl e, s5\<lparr>world := w6, console := console s5 @ [errorLine name m e]\<rparr>)"
proof
  assume "optOutCall opts m (world s) = (Inr False, w1) \<and> namespaceForCall opts m w1 = (Inr n, w2) \<and>
     redactArgsCall opts args m w2 = (Inr (a, args'), w3) \<and> isEnabled s w3 = (Inr b1, w4) \<and>
     orig (targetThis d obj) args'
       (s\<lparr>world := w4,
          console := console s @ written b1 (entryLine (resolveNamespace name m n) a)\<rparr>)
       = (Inl e, s5) \<and>
     isEnabled s5 (world s5) = (Inr b2, w6)"
  then show "invoke k (withDebugProxy d obj name opts) m args s =
           (Inl e, s5\<lparr>world := w6, console := console s5 @ [errorLine name m e]\<rparr>)"
    by (elim conjE)
       (rule invoke_wrapped_throws [where obj = obj and orig = orig, OF assms]; assumption)
qed

text \<open>
  The method that throws \<^verbatim>\<open>Error("Limit exceeded")\<close>, under a rule that returns false
  (the error line only) and under one that returns true (the entry line, then the error
  line).
\<close>

theorem wrapper_rethrows_sync_error_witness:
  "invoke 1 (withDebugProxy 1 service ''PaymentService'' noOpts) ''failing'' [JNum 200]
       (startWith (constRule False))
     = (Inl (JError ''Limit exceeded''),
        (startWith (constRule False))
          \<lparr>console := [errorLine ''PaymentService'' ''failing'' (JError ''Limit exceeded'')]\<rparr>)
   \<and> invoke 1 (withDebugProxy 1 service ''PaymentService'' noOpts) ''failing'' [JNum 200]
       (startWith (constRule True))
     = (Inl (JError ''Limit exceeded''),
        (startWith (constRule True))
          \<lparr>console := [entryLine ''PaymentService.failing'' [JNum 200],
                       errorLine ''PaymentService'' ''failing'' (JError ''Limit exceeded'')]\<rparr>)"
  using wrapper_rethrows_sync_error
          [where obj = service and m = "''failing''" and orig = failing and opts = noOpts
             and s = "startWith (constRule False)" and name = "''PaymentService''"
             and d = 1 and k = 1
             and args = "[JNum 200]" and a = "[JNum 200]" and args' = "[JNum 200]" and n = None
             and e = "JError ''Limit exceeded''"
             and ?s5.0 = "startWith (constRule False)"
             and ?b1.0 = False and ?b2.0 = False
             and ?w1.0 = "()" and ?w2.0 = "()" and ?w3.0 = "()" and ?w4.0 = "()"
             and ?w6.0 = "()"]
        wrapper_rethrows_sync_error
          [where obj = service and m = "''failing''" and orig = failing and opts = noOpts
             and s = "startWith (constRule True)" and name = "''PaymentService''"
             and d = 1 and k = 1
             and args = "[JNum 200]" and a = "[JNum 200]" and args' = "[JNum 200]" and n = None
             and e = "JError ''Limit exceeded''"
             and ?s5.0 = "(startWith (constRule True))
                            \<lparr>console := [entryLine ''PaymentService.failing'' [JNum 200]]\<rparr>"
             and ?b1.0 = True and ?b2.0 = True
             and ?w1.0 = "()" and ?w2.0 = "()" and ?w3.0 = "()" and ?w4.0 = "()"
             and ?w6.0 = "()"]
  by (simp add: input_defs call_defs run_defs line_defs)

text \<open>
  Claim C2 as stated fails for a method that is opted out (the same error, but no error
  line), and when \<open>redactArgs\<close>, \<open>namespaceFor\<close> or the rule throws (another error, no
  error line, the original not called).
\<close>

theorem wrapper_rethrows_sync_error_counterexample:
  "fst (failing (targetThis 1 service) [JNum 200] (startWith (constRule True)))
       = Inl (JError ''Limit exceeded'')
   \<and> invoke 1 (withDebugProxy 1 service ''PaymentService'' optOutAll) ''failing'' [JNum 200]
         (startWith (constRule True))
       = (Inl (JError ''Limit exceeded''), startWith (constRule True))
   \<and> invoke 1 (withDebugProxy 1 service ''PaymentService'' brokenRedactArgs) ''failing'' [JNum 200]
         (startWith (constRule True))
       = (Inl (JError ''redaction failed''), startWith (constRule True))
   \<and> invoke 1 (withDebugProxy 1 service ''PaymentService'' brokenNamespaceFor) ''failing''
         [JNum 200] (startWith (constRule True))
       = (Inl (JError ''namespaceFor failed''), startWith (constRule True))
   \<and> invoke 1 (withDebugProxy 1 service ''PaymentService'' noOpts) ''failing'' [JNum 200]
         (startWith throwingRule)
       = (Inl (JError ''rule failed''), startWith throwingRule)"
  by (simp add: eval_defs)

text \<open>
  Claim C3, as amended. Let \<open>m\<close> be a wrapped method whose call returns a promise that is
  rejected with \<open>e\<close>. If the rule installed at that time returns normally (whatever it
  returns), exactly one line is written then, the error line of the base logger
  (\<^verbatim>\<open>[name]\<close>, not the namespace of the method; the message names the method), and the
  promise returned by the proxy is rejected with the same \<open>e\<close>. If the rule throws,
  nothing is written and the promise is rejected with what the rule threw.
\<close>

theorem wrapper_logs_rejection:
  assumes "obj m = Some (Method orig)"
  shows
    "optOutCall opts m (world s) = (Inr False, w1) \<and> namespaceForCall opts m w1 = (Inr n, w2) \<and>
     redactArgsCall opts args m w2 = (Inr (a, args'), w3) \<and> isEnabled s w3 = (Inr b1, w4) \<and>
     orig (targetThis d obj) args'
       (s\<lparr>world := w4,
          console := console s @ written b1 (entryLine (resolveNamespace name m n) a)\<rparr>)
       = (Inr (Promise p), s5) \<and>
     p t = (Rejected e, t1)
     \<longrightarrow> (\<exists>q. invoke k (withDebugProxy d obj name opts) m args s = (Inr (Promise q), s5)
             \<and> (isEnabled t1 (world t1) = (Inr b2, w6) \<longrightarrow>
                  q t = (Rejected e,
                         t1\<lparr>world := w6, console := console t1 @ [errorLine name m e]\<rparr>))
             \<and> (isEnabled t1 (world t1) = (Inl x, w6) \<longrightarrow>
                  q t = (Rejected x, t1\<lparr>world := w6\<rparr>)))"
proof
  assume "optOutCall opts m (world s) = (Inr False, w1) \<and> namespaceForCall opts m w1 = (Inr n, w2) \<and>
     redactArgsCall opts args m w2 = (Inr (a, args'), w3) \<and> isEnabled s w3 = (Inr b1, w4) \<and>
     orig (targetThis d obj) args'
       (s\<lparr>world := w4,
          console := console s @ written b1 (entryLine (resolveNamespace name m n) a)\<rparr>)
       = (Inr (Promise p), s5) \<and>
     p t = (Rejected e, t1)"
  then show "\<exists>q. invoke k (withDebugProxy d obj name opts) m args s = (Inr (Promise q), s5)
             \<and> (isEnabled t1 (world t1) = (Inr b2, w6) \<longrightarrow>
                  q t = (Rejected e,
                         t1\<lparr>world := w6, console := console t1 @ [errorLine name m e]\<rparr>))
             \<and> (isEnabled t1 (world t1) = (Inl x, w6) \<longrightarrow>
                  q t = (Rejected x, t1\<lparr>world := w6\<rparr>))"
    by (elim conjE)
       (rule invoke_wrapped_rejected [where obj = obj and orig = orig, OF assms]; assumption)
qed

text \<open>
  The scenario of the specification, with a namespace override: the entry line carries
  the overriding namespace, the error line the name of the proxy. Settled under a rule
  that throws, the same promise is rejected with the rule's error.
\<close>

theorem wrapper_logs_rejection_witness:
  "\<exists>q. invoke 1 (withDebugProxy 1 service ''PaymentService'' renamed) ''processPayment''
          [JNum 200] (startWith (constRule True))
        = (Inr (Promise q),
           (startWith (constRule True))\<lparr>console := [entryLine ''Jobs'' [JNum 200]]\<rparr>)
      \<and> q (startWith (constRule False))
        = (Rejected (JError ''Limit exceeded''),
           (startWith (constRule False))
             \<lparr>console := [errorLine ''PaymentService'' ''processPayment'' (JError ''Limit exceeded'')]\<rparr>)
      \<and> q (startWith throwingRule) = (Rejected (JError ''rule failed''), startWith throwingRule)"
proof -
  obtain q where
    "invoke 1 (withDebugProxy 1 service ''PaymentService'' renamed) ''processPayment'' [JNum 200]
          (startWith (constRule True))
        = (Inr (Promise q),
           (startWith (constRule True))\<lparr>console := [entryLine ''Jobs'' [JNum 200]]\<rparr>)"
    and "q (startWith (constRule False))
        = (Rejected (JError ''Limit exceeded''),
           (startWith (constRule False))
             \<lparr>console := [errorLine ''PaymentService'' ''processPayment'' (JError ''Limit exceeded'')]\<rparr>)"
  using wrapper_logs_rejection
          [where obj = service and m = "''processPayment''" and orig = processPayment
             and opts = renamed
             and s = "startWith (constRule True)" and name = "''PaymentService''"
             and d = 1 and k = 1
             and args = "[JNum 200]" and a = "[JNum 200]" and args' = "[JNum 200]"
             and n = "Some ''Jobs''"
             and p = "\<lambda>s. (Rejected (JError ''Limit exceeded''), s)"
             and ?s5.0 = "(startWith (constRule True))\<lparr>console := [entryLine ''Jobs'' [JNum 200]]\<rparr>"
             and t = "startWith (constRule False)" and ?t1.0 = "startWith (constRule False)"
             and e = "JError ''Limit exceeded''"
             and ?b1.0 = True and ?b2.0 = False
             and ?w1.0 = "()" and ?w2.0 = "()" and ?w3.0 = "()" and ?w4.0 = "()"
             and ?w6.0 = "()"]
    by (auto simp add: input_defs call_defs returnJ_def line_defs)
  moreover obtain q' where
    "invoke 1 (withDebugProxy 1 service ''PaymentService'' renamed) ''processPayment'' [JNum 200]
          (startWith (constRule True))
        = (Inr (Promise q'),
           (startWith (constRule True))\<lparr>console := [entryLine ''Jobs'' [JNum 200]]\<rparr>)"
    and "q' (startWith throwingRule) = (Rejected (JError ''rule failed''), startWith throwingRule)"
  using wrapper_logs_rejection
          [where obj = service and m = "''processPayment''" and orig = processPayment
             and opts = renamed
             and s = "startWith (constRule True)" and name = "''PaymentService''"
             and d = 1 and k = 1
             and args = "[JNum 200]" and a = "[JNum 200]" and args' = "[JNum 200]"
             and n = "Some ''Jobs''"
             and p = "\<lambda>s. (Rejected (JError ''Limit exceeded''), s)"
             and ?s5.0 = "(startWith (constRule True))\<lparr>console := [entryLine ''Jobs'' [JNum 200]]\<rparr>"
             and t = "startWith throwingRule" and ?t1.0 = "startWith throwingRule"
             and e = "JError ''Limit exceeded''" and x = "JError ''rule failed''"
             and ?b1.0 = True
             and ?w1.0 = "()" and ?w2.0 = "()" and ?w3.0 = "()" and ?w4.0 = "()"
             and ?w6.0 = "()"]
    by (auto simp add: input_defs call_defs returnJ_def throwJ_def line_defs)
  ultimately show ?thesis by auto
qed

text \<open>
  Claim C3 as stated fails under a rule that throws: \<^verbatim>\<open>processPayment(200)\<close> is rejected
  with \<^verbatim>\<open>Error("Limit exceeded")\<close>, but when the rule installed at that time throws, the
  promise of the proxy is rejected with the rule's error and no line is written.
\<close>

theorem wrapper_logs_rejection_counterexample:
  "(case processPayment (targetThis 1 service) [JNum 200] (startWith (constRule True)) of
      (Inr (Promise p), s') \<Rightarrow> fst (p s') = Rejected (JError ''Limit exceeded'')
    | _ \<Rightarrow> False)
   \<and> (case invoke 1 (withDebugProxy 1 service ''PaymentService'' noOpts) ''processPayment''
              [JNum 200] (startWith (constRule True)) of
         (Inr (Promise q), s') \<Rightarrow>
           q (snd (setEnableRule throwingRule s'))
             = (Rejected (JError ''rule failed''), snd (setEnableRule throwingRule s'))
       | _ \<Rightarrow> False)"
  by (simp add: eval_defs setEnableRule_def)

text \<open>
  Claim C7, as amended. If \<open>optOut\<close> returns true for the method \<open>m\<close>, reading \<open>m\<close> from the
  proxy runs the predicate once and yields the original function itself, neither
  wrapped nor bound. The call expression \<^verbatim>\<open>proxy.m(...args)\<close> reads once and then is the
  call of the original with the proxy as \<^verbatim>\<open>this\<close>: the wrapper writes no line for \<open>m\<close>
  and the predicate is not consulted again for it; whatever the original then reads or
  calls on \<^verbatim>\<open>this\<close> goes through the proxy like any other access.
\<close>

theorem optOut_returns_original:
  assumes "obj m = Some (Method orig)"
    and "optOut opts = Some f"
    and "f m (world s) = (Inr True, w1)"
  shows "withDebugProxy d obj name opts m s = (Inr (Method orig), s\<lparr>world := w1\<rparr>)
       \<and> invoke k (withDebugProxy d obj name opts) m args s =
           orig (asReceiver k (withDebugProxy d obj name opts)) args (s\<lparr>world := w1\<rparr>)"
proof -
  have oo: "optOutCall opts m (world s) = (Inr True, w1)"
    using assms(2,3) by (simp add: optOutCall_def)
  show ?thesis
    using access_optedOut [where obj = obj, OF assms(1) oo, of d name]
          invoke_optedOut [where obj = obj, OF assms(1) oo, of k d name args]
    by simp
qed

text \<open>
  With a predicate that counts its calls: one read, then two calls of the function that
  was read; the count stays at one and the console stays empty. A second read makes it
  two. The call expression leaves the count at one.
\<close>

theorem optOut_returns_original_witness:
  "(case withDebugProxy 1 service ''UserService'' countingOptOut ''getUser'' startCounting of
      (Inr (Method g), s1) \<Rightarrow>
        world s1 = 1 \<and>
        (case g (asReceiver 1 (withDebugProxy 1 service ''UserService'' countingOptOut))
                [JStr ''123''] s1 of
           (r, s2) \<Rightarrow> r = Inr (Value (user [JStr ''123''])) \<and> world s2 = 1 \<and> console s2 = []
                        \<and> world (snd (g (asReceiver 1
                                           (withDebugProxy 1 service ''UserService'' countingOptOut))
                                        [JStr ''456''] s2)) = 1) \<and>
        world (snd (withDebugProxy 1 service ''UserService'' countingOptOut ''getUser'' s1)) = 2
    | _ \<Rightarrow> False)
   \<and> invoke 1 (withDebugProxy 1 service ''UserService'' countingOptOut) ''getUser'' [JStr ''123'']
       startCounting
     = (Inr (Value (user [JStr ''123''])), startCounting\<lparr>world := 1\<rparr>)"
  using optOut_returns_original
          [where obj = service and m = "''getUser''" and orig = getUser and opts = countingOptOut
             and f = "\<lambda>m k. (Inr True, Suc k)" and s = startCounting and ?w1.0 = 1
             and d = 1 and k = 1
             and name = "''UserService''" and args = "[JStr ''123'']"]
        optOut_returns_original
          [where obj = service and m = "''getUser''" and orig = getUser and opts = countingOptOut
             and f = "\<lambda>m k. (Inr True, Suc k)" and s = "startCounting\<lparr>world := 1\<rparr>"
             and ?w1.0 = 2 and d = 1 and k = 1
             and name = "''UserService''" and args = "[JStr ''456'']"]
  by (simp add: input_defs startCounting_def returnJ_def)

text \<open>
  Claim C7 as stated fails on the number of lines. With \<^verbatim>\<open>outer\<close> opted out, the call
  \<^verbatim>\<open>proxy.outer(1)\<close> runs the original \<^verbatim>\<open>outer\<close> with the proxy as \<^verbatim>\<open>this\<close>, so its
  \<^verbatim>\<open>this.inner(1)\<close> is read through the proxy and is wrapped: two lines are written,
  where the same call on the object itself writes none. With an \<^verbatim>\<open>inner\<close> that throws,
  an entry line and an error line are written.
\<close>

theorem optOut_returns_original_counterexample:
  "optOutCall optOutOuter ''outer'' () = (Inr True, ())
   \<and> invoke 1 (targetGet nested) ''outer'' [JNum 1] (startWith (constRule True))
       = (Inr (Value (JNum 1)), startWith (constRule True))
   \<and> invoke 1 (withDebugProxy 1 nested ''S'' optOutOuter) ''outer'' [JNum 1]
         (startWith (constRule True))
       = (Inr (Value (JNum 1)),
          (startWith (constRule True))
            \<lparr>console := [entryLine ''S.inner'' [JNum 1], resultLine ''S.inner'' (JNum 1)]\<rparr>)
   \<and> invoke 1 (withDebugProxy 1 nestedFailing ''S'' optOutOuter) ''outer'' [JNum 1]
         (startWith (constRule True))
       = (Inl (JError ''Limit exceeded''),
          (startWith (constRule True))
            \<lparr>console := [entryLine ''S.inner'' [JNum 1],
                         errorLine ''S'' ''inner'' (JError ''Limit exceeded'')]\<rparr>)"
  by (simp add: eval_defs line_defs)

section \<open>The decorator\<close>

text \<open>
  Claim C8, as amended. Provided the rule returns normally: when the original returns a
  plain value or a promise that is fulfilled, the decorated method logs and returns
  exactly as the wrapper's function does with no options and the namespace \<^verbatim>\<open>ns ?? key\<close>
  (whatever the wrapper's base logger). When the original throws \<open>e\<close> or its promise is
  rejected with \<open>e\<close>, the decorated method writes one error line through its own logger
  (\<^verbatim>\<open>[ns ?? key]\<close>, the fixed message, \<open>e\<close>) and throws, or is rejected with, the same \<open>e\<close>.
\<close>

theorem decorator_logging:
  "(isEnabled s (world s) = (Inr b1, w1) \<and>
    orig thisArg args
      (s\<lparr>world := w1,
         console := console s @ written b1 (entryLine (decoratorNamespace ns key) args)\<rparr>)
      = (Inr (Value x), s2) \<and>
    isEnabled s2 (world s2) = (Inr b2, w3)
    \<longrightarrow> DebugLog ns key orig thisArg args s =
          wrappedMethod baseLog (makeLogger (decoratorNamespace ns key)) noOpts key
            (orig thisArg) args s
      \<and> DebugLog ns key orig thisArg args s =
          (Inr (Value x),
           s2\<lparr>world := w3,
              console := console s2 @ written b2 (resultLine (decoratorNamespace ns key) x)\<rparr>))
   \<and> (isEnabled s (world s) = (Inr b1, w1) \<and>
    orig thisArg args
      (s\<lparr>world := w1,
         console := console s @ written b1 (entryLine (decoratorNamespace ns key) args)\<rparr>)
      = (Inl e, s2) \<and>
    isEnabled s2 (world s2) = (Inr b2, w3)
      \<longrightarrow> DebugLog ns key orig thisArg args s =
            (Inl e,
             s2\<lparr>world := w3,
                console := console s2 @ [decoratorErrorLine (decoratorNamespace ns key) e]\<rparr>))
   \<and> (isEnabled s (world s) = (Inr b1, w1) \<and>
    orig thisArg args
      (s\<lparr>world := w1,
         console := console s @ written b1 (entryLine (decoratorNamespace ns key) args)\<rparr>)
      = (Inr (Promise p), s2)
      \<longrightarrow> (\<exists>q q'.
             DebugLog ns key orig thisArg args s = (Inr (Promise q), s2)
           \<and> wrappedMethod baseLog (makeLogger (decoratorNamespace ns key)) noOpts key
               (orig thisArg) args s = (Inr (Promise q'), s2)
           \<and> (p t = (Fulfilled x, t1) \<and> isEnabled t1 (world t1) = (Inr b2, w4)
                \<longrightarrow> q t = q' t
                  \<and> q t = (Fulfilled x,
                           t1\<lparr>world := w4,
                              console := console t1
                                @ written b2 (resultLine (decoratorNamespace ns key) x)\<rparr>))
           \<and> (p t = (Rejected e, t1) \<and> isEnabled t1 (world t1) = (Inr b2, w4)
                \<longrightarrow> q t = (Rejected e,
                           t1\<lparr>world := w4,
                              console := console t1
                                @ [decoratorErrorLine (decoratorNamespace ns key) e]\<rparr>))))"
proof (intro conjI impI)
  assume h: "isEnabled s (world s) = (Inr b1, w1) \<and>
    orig thisArg args
      (s\<lparr>world := w1,
         console := console s @ written b1 (entryLine (decoratorNamespace ns key) args)\<rparr>)
      = (Inr (Value x), s2) \<and>
    isEnabled s2 (world s2) = (Inr b2, w3)"
  then have h1: "isEnabled s (world s) = (Inr b1, w1)"
    and h2: "orig thisArg args
      (s\<lparr>world := w1,
         console := console s @ written b1 (entryLine (decoratorNamespace ns key) args)\<rparr>)
      = (Inr (Value x), s2)"
    and h3: "isEnabled s2 (world s2) = (Inr b2, w3)"
    by simp_all
  show d: "DebugLog ns key orig thisArg args s =
          (Inr (Value x),
           s2\<lparr>world := w3,
              console := console s2 @ written b2 (resultLine (decoratorNamespace ns key) x)\<rparr>)"
    by (rule DebugLog_plain [where orig = orig, OF h1 h2 h3])
  show "DebugLog ns key orig thisArg args s =
          wrappedMethod baseLog (makeLogger (decoratorNamespace ns key)) noOpts key
            (orig thisArg) args s"
    using d wrapped_noOpts_plain
              [where origOnThis = "orig thisArg", OF h1 h2 h3, of baseLog key]
    by simp
next
  assume "isEnabled s (world s) = (Inr b1, w1) \<and>
    orig thisArg args
      (s\<lparr>world := w1,
         console := console s @ written b1 (entryLine (decoratorNamespace ns key) args)\<rparr>)
      = (Inl e, s2) \<and>
    isEnabled s2 (world s2) = (Inr b2, w3)"
  then show "DebugLog ns key orig thisArg args s =
            (Inl e,
             s2\<lparr>world := w3,
                console := console s2 @ [decoratorErrorLine (decoratorNamespace ns key) e]\<rparr>)"
    by (elim conjE) (rule DebugLog_throws [where orig = orig]; assumption)
next
  assume h: "isEnabled s (world s) = (Inr b1, w1) \<and>
    orig thisArg args
      (s\<lparr>world := w1,
         console := console s @ written b1 (entryLine (decoratorNamespace ns key) args)\<rparr>)
      = (Inr (Promise p), s2)"
  then have h1: "isEnabled s (world s) = (Inr b1, w1)"
    and h2: "orig thisArg args
      (s\<lparr>world := w1,
         console := console s @ written b1 (entryLine (decoratorNamespace ns key) args)\<rparr>)
      = (Inr (Promise p), s2)"
    by simp_all
  obtain q where
    d1: "DebugLog ns key orig thisArg args s = (Inr (Promise q), s2)"
    and d2: "\<forall>t x t1 b w4.
               p t = (Fulfilled x, t1) \<longrightarrow> isEnabled t1 (world t1) = (Inr b, w4) \<longrightarrow>
               q t = (Fulfilled x,
                      t1\<lparr>world := w4,
                         console := console t1 @ written b (resultLine (decoratorNamespace ns key) x)\<rparr>)"
    and d3: "\<forall>t e t1 b w4.
               p t = (Rejected e, t1) \<longrightarrow> isEnabled t1 (world t1) = (Inr b, w4) \<longrightarrow>
               q t = (Rejected e,
                      t1\<lparr>world := w4,
                         console := console t1 @ [decoratorErrorLine (decoratorNamespace ns key) e]\<rparr>)"
    using DebugLog_promise [where orig = orig, OF h1 h2] by blast
  obtain q' where
    e1: "wrappedMethod baseLog (makeLogger (decoratorNamespace ns key)) noOpts key
           (orig thisArg) args s = (Inr (Promise q'), s2)"
    and e2: "\<forall>t x t1 b w4.
               p t = (Fulfilled x, t1) \<longrightarrow> isEnabled t1 (world t1) = (Inr b, w4) \<longrightarrow>
               q' t = (Fulfilled x,
                      t1\<lparr>world := w4,
                         console := console t1 @ written b (resultLine (decoratorNamespace ns key) x)\<rparr>)"
    using wrapped_noOpts_promise [where origOnThis = "orig thisArg", OF h1 h2, of baseLog key]
    by blast
  have f: "p t = (Fulfilled x, t1) \<and> isEnabled t1 (world t1) = (Inr b2, w4)
                \<longrightarrow> q t = q' t
                  \<and> q t = (Fulfilled x,
                           t1\<lparr>world := w4,
                              console := console t1
                                @ written b2 (resultLine (decoratorNamespace ns key) x)\<rparr>)"
    using d2 e2 by simp
  have r: "p t = (Rejected e, t1) \<and> isEnabled t1 (world t1) = (Inr b2, w4)
                \<longrightarrow> q t = (Rejected e,
                           t1\<lparr>world := w4,
                              console := console t1
                                @ [decoratorErrorLine (decoratorNamespace ns key) e]\<rparr>)"
    using d3 by simp
  from d1 e1 f r show "\<exists>q q'.
             DebugLog ns key orig thisArg args s = (Inr (Promise q), s2)
           \<and> wrappedMethod baseLog (makeLogger (decoratorNamespace ns key)) noOpts key
               (orig thisArg) args s = (Inr (Promise q'), s2)
           \<and> (p t = (Fulfilled x, t1) \<and> isEnabled t1 (world t1) = (Inr b2, w4)
                \<longrightarrow> q t = q' t
                  \<and> q t = (Fulfilled x,
                           t1\<lparr>world := w4,
                              console := console t1
                                @ written b2 (resultLine (decoratorNamespace ns key) x)\<rparr>))
           \<and> (p t = (Rejected e, t1) \<and> isEnabled t1 (world t1) = (Inr b2, w4)
                \<longrightarrow> q t = (Rejected e,
                           t1\<lparr>world := w4,
                              console := console t1
                                @ [decoratorErrorLine (decoratorNamespace ns key) e]\<rparr>))"
    by blast
qed

text \<open>
  The four paths on the methods of the service: a plain value, a throw, a rejection and
  a fulfilment.
\<close>

theorem decorator_logging_witness:
  "DebugLog None ''getUser'' getUser (targetThis 1 service) [JStr ''123'']
       (startWith (constRule True))
     = (Inr (Value (user [JStr ''123''])),
        (startWith (constRule True))
          \<lparr>console := [entryLine ''getUser'' [JStr ''123''],
                       resultLine ''getUser'' (user [JStr ''123''])]\<rparr>)
   \<and> DebugLog None ''failing'' failing (targetThis 1 service) [JNum 200]
       (startWith (constRule True))
     = (Inl (JError ''Limit exceeded''),
        (startWith (constRule True))
          \<lparr>console := [entryLine ''failing'' [JNum 200],
                       decoratorErrorLine ''failing'' (JError ''Limit exceeded'')]\<rparr>)
   \<and> (\<exists>q. DebugLog None ''processPayment'' processPayment (targetThis 1 service) [JNum 200]
             (startWith (constRule True))
           = (Inr (Promise q),
              (startWith (constRule True))\<lparr>console := [entryLine ''processPayment'' [JNum 200]]\<rparr>)
         \<and> q (startWith (constRule False))
           = (Rejected (JError ''Limit exceeded''),
              (startWith (constRule False))
                \<lparr>console := [decoratorErrorLine ''processPayment'' (JError ''Limit exceeded'')]\<rparr>))
   \<and> (\<exists>q. DebugLog None ''getUserAsync'' getUserAsync (targetThis 1 service) [JStr ''123'']
             (startWith (constRule True))
           = (Inr (Promise q),
              (startWith (constRule True))\<lparr>console := [entryLine ''getUserAsync'' [JStr ''123'']]\<rparr>)
         \<and> q (startWith (constRule True))
           = (Fulfilled (user [JStr ''123'']),
              (startWith (constRule True))
                \<lparr>console := [resultLine ''getUserAsync'' (user [JStr ''123''])]\<rparr>))"
proof -
  have plain: "DebugLog None ''getUser'' getUser (targetThis 1 service) [JStr ''123'']
       (startWith (constRule True))
     = (Inr (Value (user [JStr ''123''])),
        (startWith (constRule True))
          \<lparr>console := [entryLine ''getUser'' [JStr ''123''],
                       resultLine ''getUser'' (user [JStr ''123''])]\<rparr>)"
    using decorator_logging
          [where s = "startWith (constRule True)" and orig = getUser
             and thisArg = "targetThis 1 service" and args = "[JStr ''123'']"
             and ns = None and key = "''getUser''" and x = "user [JStr ''123'']"
             and baseLog = "makeLogger ''Base''"
             and ?s2.0 = "(startWith (constRule True))
                            \<lparr>console := [entryLine ''getUser'' [JStr ''123'']]\<rparr>"
             and ?b1.0 = True and ?b2.0 = True
             and ?w1.0 = "()" and ?w3.0 = "()"]
    by (auto simp add: input_defs returnJ_def line_defs decoratorNamespace_def)
  have throws: "DebugLog None ''failing'' failing (targetThis 1 service) [JNum 200]
       (startWith (constRule True))
     = (Inl (JError ''Limit exceeded''),
        (startWith (constRule True))
          \<lparr>console := [entryLine ''failing'' [JNum 200],
                       decoratorErrorLine ''failing'' (JError ''Limit exceeded'')]\<rparr>)"
    using decorator_logging
          [where s = "startWith (constRule True)" and orig = failing
             and thisArg = "targetThis 1 service" and args = "[JNum 200]"
             and ns = None and key = "''failing''" and e = "JError ''Limit exceeded''"
             and baseLog = "makeLogger ''Base''"
             and ?s2.0 = "(startWith (constRule True))
                            \<lparr>console := [entryLine ''failing'' [JNum 200]]\<rparr>"
             and ?b1.0 = True and ?b2.0 = True
             and ?w1.0 = "()" and ?w3.0 = "()"]
    by (simp add: input_defs returnJ_def throwJ_def line_defs decoratorNamespace_def)
  have rejected: "\<exists>q. DebugLog None ''processPayment'' processPayment (targetThis 1 service)
             [JNum 200] (startWith (constRule True))
           = (Inr (Promise q),
              (startWith (constRule True))\<lparr>console := [entryLine ''processPayment'' [JNum 200]]\<rparr>)
         \<and> q (startWith (constRule False))
           = (Rejected (JError ''Limit exceeded''),
              (startWith (constRule False))
                \<lparr>console := [decoratorErrorLine ''processPayment'' (JError ''Limit exceeded'')]\<rparr>)"
    using decorator_logging
          [where s = "startWith (constRule True)" and orig = processPayment
             and thisArg = "targetThis 1 service" and args = "[JNum 200]"
             and ns = None and key = "''processPayment''" and e = "JError ''Limit exceeded''"
             and p = "\<lambda>s. (Rejected (JError ''Limit exceeded''), s)"
             and t = "startWith (constRule False)" and ?t1.0 = "startWith (constRule False)"
             and baseLog = "makeLogger ''Base''"
             and ?s2.0 = "(startWith (constRule True))
                            \<lparr>console := [entryLine ''processPayment'' [JNum 200]]\<rparr>"
             and ?b1.0 = True and ?b2.0 = False
             and ?w1.0 = "()" and ?w4.0 = "()"]
    by (simp add: input_defs returnJ_def line_defs decoratorNamespace_def) blast
  have fulfilled: "\<exists>q. DebugLog None ''getUserAsync'' getUserAsync (targetThis 1 service)
             [JStr ''123''] (startWith (constRule True))
           = (Inr (Promise q),
              (startWith (constRule True))\<lparr>console := [entryLine ''getUserAsync'' [JStr ''123'']]\<rparr>)
         \<and> q (startWith (constRule True))
           = (Fulfilled (user [JStr ''123'']),
              (startWith (constRule True))
                \<lparr>console := [resultLine ''getUserAsync'' (user [JStr ''123''])]\<rparr>)"
    using decorator_logging
          [where s = "startWith (constRule True)" and orig = getUserAsync
             and thisArg = "targetThis 1 service" and args = "[JStr ''123'']"
             and ns = None and key = "''getUserAsync''" and x = "user [JStr ''123'']"
             and p = "\<lambda>s. (Fulfilled (user [JStr ''123'']), s)"
             and t = "startWith (constRule True)" and ?t1.0 = "startWith (constRule True)"
             and baseLog = "makeLogger ''Base''"
             and ?s2.0 = "(startWith (constRule True))
                            \<lparr>console := [entryLine ''getUserAsync'' [JStr ''123'']]\<rparr>"
             and ?b1.0 = True and ?b2.0 = True
             and ?w1.0 = "()" and ?w4.0 = "()"]
    by (simp add: input_defs returnJ_def line_defs decoratorNamespace_def) blast
  from plain throws rejected fulfilled show ?thesis by blast
qed

text \<open>
  Claim C8 as stated fails on the error line. For the method \<^verbatim>\<open>pay\<close> decorated with
  \<^verbatim>\<open>DebugLog("Payments")\<close>, the error line is the tag, the fixed message and the error:
  the method is not named. The wrapper's function for the same namespaces writes the
  message that names \<^verbatim>\<open>pay\<close>, so the two differ. Under a rule that throws, the decorated
  method throws the rule's error and writes nothing.
\<close>

theorem decorator_logging_counterexample:
  "DebugLog (Some ''Payments'') ''pay'' failing (targetThis 1 service) [JNum 200]
       (startWith (constRule True))
     = (Inl (JError ''Limit exceeded''),
        (startWith (constRule True))
          \<lparr>console := [(''log'', [JStr ''[Payments]'', JStr args_marker, JArr [JNum 200]]),
                       (''error'', [JStr ''[Payments]'', JStr error_marker,
                                    JError ''Limit exceeded''])]\<rparr>)
   \<and> wrappedMethod (makeLogger ''Payments'') (makeLogger ''Payments'') noOpts ''pay''
        (failing (targetThis 1 service)) [JNum 200] (startWith (constRule True))
     = (Inl (JError ''Limit exceeded''),
        (startWith (constRule True))
          \<lparr>console := [(''log'', [JStr ''[Payments]'', JStr args_marker, JArr [JNum 200]]),
                       (''error'', [JStr ''[Payments]'', JStr (error_in ''pay''),
                                    JError ''Limit exceeded''])]\<rparr>)
   \<and> DebugLog (Some ''Payments'') ''pay'' failing (targetThis 1 service) [JNum 200]
       (startWith (constRule True))
     \<noteq> wrappedMethod (makeLogger ''Payments'') (makeLogger ''Payments'') noOpts ''pay''
         (failing (targetThis 1 service)) [JNum 200] (startWith (constRule True))
   \<and> DebugLog (Some ''Payments'') ''pay'' failing (targetThis 1 service) [JNum 200]
       (startWith throwingRule)
     = (Inl (JError ''rule failed''), startWith throwingRule)"
  by (simp add: eval_defs DebugLog_def decoratorNamespace_def bracketed_def error_marker_def
        error_in_def)

end
